theory Spec2Isabelle
  imports Complex_Main "HOL-Library.Multiset"
begin

section \<open>JavaScript numbers\<close>

text \<open>
  The values of the JavaScript Number type that the directive computes with. A finite
  value is modelled by the real number it denotes; \<open>NaN\<close> and the two infinities are kept
  apart, since \<open>Number\<close> produces them and \<open>isNaN\<close>, \<open>Math.max\<close> and \<open>Math.min\<close> treat
  them specially. The rounding of binary64 arithmetic, its overflow to an infinity and the
  sign of zero are not modelled.
\<close>

datatype jsnum = NaN | NegInf | PosInf | Fin real

definition isNaN :: "jsnum \<Rightarrow> bool" where
  "isNaN v = (v = NaN)"

text \<open>The binary \<open>+\<close> on two numbers.\<close>

fun js_add :: "jsnum \<Rightarrow> jsnum \<Rightarrow> jsnum" where
  "js_add NaN b = NaN"
| "js_add a NaN = NaN"
| "js_add (Fin a) (Fin b) = Fin (a + b)"
| "js_add PosInf NegInf = NaN"
| "js_add NegInf PosInf = NaN"
| "js_add PosInf b = PosInf"
| "js_add a PosInf = PosInf"
| "js_add NegInf b = NegInf"
| "js_add a NegInf = NegInf"

text \<open>The unary \<open>-\<close>, and the binary \<open>-\<close> as addition of the negated operand.\<close>

fun js_neg :: "jsnum \<Rightarrow> jsnum" where
  "js_neg NaN = NaN"
| "js_neg NegInf = PosInf"
| "js_neg PosInf = NegInf"
| "js_neg (Fin a) = Fin (- a)"

definition js_sub :: "jsnum \<Rightarrow> jsnum \<Rightarrow> jsnum" where
  "js_sub a b = js_add a (js_neg b)"

text \<open>The relational operators \<open><=\<close> and \<open><\<close>: false as soon as an operand is NaN.\<close>

fun js_le :: "jsnum \<Rightarrow> jsnum \<Rightarrow> bool" where
  "js_le NaN b = False"
| "js_le a NaN = False"
| "js_le NegInf b = True"
| "js_le a PosInf = True"
| "js_le (Fin a) (Fin b) = (a \<le> b)"
| "js_le PosInf b = False"
| "js_le a NegInf = False"

definition js_lt :: "jsnum \<Rightarrow> jsnum \<Rightarrow> bool" where
  "js_lt a b = (js_le a b \<and> a \<noteq> b)"

text \<open>\<open>Math.max\<close> and \<open>Math.min\<close> of two arguments: NaN when either argument is NaN.\<close>

definition Math_max :: "jsnum \<Rightarrow> jsnum \<Rightarrow> jsnum" where
  "Math_max a b = (if isNaN a \<or> isNaN b then NaN else if js_le a b then b else a)"

definition Math_min :: "jsnum \<Rightarrow> jsnum \<Rightarrow> jsnum" where
  "Math_min a b = (if isNaN a \<or> isNaN b then NaN else if js_le a b then a else b)"

section \<open>Number applied to a string\<close>

text \<open>
  \<open>Number(s)\<close> for a string \<open>s\<close>, after the StringNumericLiteral grammar of ECMAScript:
  white space is trimmed, the empty string is 0, then comes a binary, octal or hexadecimal
  integer literal, or a decimal literal with optional sign, fraction and exponent, or a
  signed \<open>Infinity\<close>; anything else is NaN. Strings are byte strings here, so of the
  white space characters only the ASCII ones are recognised.
\<close>

definition isStrWhiteSpace :: "char \<Rightarrow> bool" where
  "isStrWhiteSpace c = (c \<in> set [CHR 0x09, CHR 0x0A, CHR 0x0B, CHR 0x0C, CHR 0x0D, CHR 0x20])"

definition trim :: "string \<Rightarrow> string" where
  "trim s = rev (dropWhile isStrWhiteSpace (rev (dropWhile isStrWhiteSpace s)))"

definition isDecimalDigit :: "char \<Rightarrow> bool" where
  "isDecimalDigit c = (c \<in> set ''0123456789'')"

definition isHexDigit :: "char \<Rightarrow> bool" where
  "isHexDigit c = (c \<in> set ''0123456789abcdefABCDEF'')"

definition isOctalDigit :: "char \<Rightarrow> bool" where
  "isOctalDigit c = (c \<in> set ''01234567'')"

definition isBinaryDigit :: "char \<Rightarrow> bool" where
  "isBinaryDigit c = (c \<in> set ''01'')"

definition digitValue :: "char \<Rightarrow> nat" where
  "digitValue c =
     (if isDecimalDigit c then of_char c - 48
      else if c \<in> set ''abcdef'' then of_char c - 87
      else of_char c - 55)"

definition digitsValue :: "nat \<Rightarrow> string \<Rightarrow> nat" where
  "digitsValue base ds = foldl (\<lambda>acc c. acc * base + digitValue c) 0 ds"

definition pow10 :: "int \<Rightarrow> real" where
  "pow10 e = (if 0 \<le> e then 10 ^ nat e else 1 / 10 ^ nat (- e))"

text \<open>DecimalDigits: a non-empty run of decimal digits, and nothing else.\<close>

definition decimalDigits :: "string \<Rightarrow> nat option" where
  "decimalDigits s =
     (if s \<noteq> [] \<and> list_all isDecimalDigit s then Some (digitsValue 10 s) else None)"

text \<open>SignedInteger, the part of an exponent after its \<open>e\<close>.\<close>

definition signedInteger :: "string \<Rightarrow> int option" where
  "signedInteger s =
     (case s of
        [] \<Rightarrow> None
      | c # ds \<Rightarrow>
          if c = CHR ''+'' then map_option int (decimalDigits ds)
          else if c = CHR ''-'' then map_option (\<lambda>n. - int n) (decimalDigits ds)
          else map_option int (decimalDigits s))"

text \<open>The optional ExponentPart that ends a decimal literal; \<open>None\<close> when malformed.\<close>

definition exponentPart :: "string \<Rightarrow> int option" where
  "exponentPart s =
     (case s of
        [] \<Rightarrow> Some 0
      | c # r \<Rightarrow> if c = CHR ''e'' \<or> c = CHR ''E'' then signedInteger r else None)"

definition strUnsignedDecimalLiteral :: "string \<Rightarrow> jsnum" where
  "strUnsignedDecimalLiteral s =
     (if s = ''Infinity'' then PosInf
      else
        let ip = takeWhile isDecimalDigit s;
            r1 = dropWhile isDecimalDigit s;
            (fp, r2) = (case r1 of
                          [] \<Rightarrow> ([], [])
                        | c # t \<Rightarrow>
                            if c = CHR ''.''
                            then (takeWhile isDecimalDigit t, dropWhile isDecimalDigit t)
                            else ([], r1))
        in if ip = [] \<and> fp = [] then NaN
           else (case exponentPart r2 of
                   None \<Rightarrow> NaN
                 | Some e \<Rightarrow>
                     Fin (real (digitsValue 10 (ip @ fp)) * pow10 (e - int (length fp)))))"

definition strDecimalLiteral :: "string \<Rightarrow> jsnum" where
  "strDecimalLiteral s =
     (case s of
        [] \<Rightarrow> NaN
      | c # t \<Rightarrow>
          if c = CHR ''+'' then strUnsignedDecimalLiteral t
          else if c = CHR ''-'' then js_neg (strUnsignedDecimalLiteral t)
          else strUnsignedDecimalLiteral s)"

text \<open>\<open>0x\<close>, \<open>0o\<close> and \<open>0b\<close> literals: unsigned, with at least one digit.\<close>

definition nonDecimalIntegerLiteral :: "string \<Rightarrow> jsnum option" where
  "nonDecimalIntegerLiteral s =
     (case s of
        z # p # ds \<Rightarrow>
          if z = CHR ''0'' \<and> ds \<noteq> [] then
            if (p = CHR ''x'' \<or> p = CHR ''X'') \<and> list_all isHexDigit ds
              then Some (Fin (real (digitsValue 16 ds)))
            else if (p = CHR ''o'' \<or> p = CHR ''O'') \<and> list_all isOctalDigit ds
              then Some (Fin (real (digitsValue 8 ds)))
            else if (p = CHR ''b'' \<or> p = CHR ''B'') \<and> list_all isBinaryDigit ds
              then Some (Fin (real (digitsValue 2 ds)))
            else None
          else None
      | _ \<Rightarrow> None)"

definition Number :: "string \<Rightarrow> jsnum" where
  "Number s =
     (let t = trim s
      in if t = [] then Fin 0
         else (case nonDecimalIntegerLiteral t of
                 Some v \<Rightarrow> v
               | None \<Rightarrow> strDecimalLiteral t))"

section \<open>parseMargin\<close>

text \<open>
  The margin object \<open>{top, right, bottom, left}\<close> of the source; the same shape serves
  for \<open>undockedMargin\<close>, whose four fields are absolute coordinates.
\<close>

record margin =
  top_m :: jsnum
  right_m :: jsnum
  bottom_m :: jsnum
  left_m :: jsnum

text \<open>\<open>text.split(',')\<close>: the pieces between the commas, at least one piece.\<close>

fun split_acc :: "char \<Rightarrow> string \<Rightarrow> string \<Rightarrow> string list" where
  "split_acc sep acc [] = [rev acc]"
| "split_acc sep acc (c # cs) =
     (if c = sep then rev acc # split_acc sep [] cs else split_acc sep (c # acc) cs)"

definition split :: "string \<Rightarrow> char \<Rightarrow> string list" where
  "split txt sep = split_acc sep [] txt"

text \<open>
  The \<open>switch (parts.length)\<close> of \<open>parseMargin\<close>, on the margin initialised to zeros. Each
  field is written only under its own \<open>!isNaN\<close> guard.
\<close>

definition set_top_bottom :: "jsnum \<Rightarrow> margin \<Rightarrow> margin" where
  "set_top_bottom v m = (if \<not> isNaN v then m\<lparr>top_m := v, bottom_m := v\<rparr> else m)"

definition set_right_left :: "jsnum \<Rightarrow> margin \<Rightarrow> margin" where
  "set_right_left v m = (if \<not> isNaN v then m\<lparr>right_m := v, left_m := v\<rparr> else m)"

definition set_top :: "jsnum \<Rightarrow> margin \<Rightarrow> margin" where
  "set_top v m = (if \<not> isNaN v then m\<lparr>top_m := v\<rparr> else m)"

definition set_right :: "jsnum \<Rightarrow> margin \<Rightarrow> margin" where
  "set_right v m = (if \<not> isNaN v then m\<lparr>right_m := v\<rparr> else m)"

definition set_bottom :: "jsnum \<Rightarrow> margin \<Rightarrow> margin" where
  "set_bottom v m = (if \<not> isNaN v then m\<lparr>bottom_m := v\<rparr> else m)"

definition set_left :: "jsnum \<Rightarrow> margin \<Rightarrow> margin" where
  "set_left v m = (if \<not> isNaN v then m\<lparr>left_m := v\<rparr> else m)"

definition margin_switch :: "string list \<Rightarrow> margin \<Rightarrow> margin" where
  "margin_switch parts m =
     (case parts of
        [p0] \<Rightarrow>
          (let marginAll = Number p0
           in if \<not> isNaN marginAll
              then m\<lparr>top_m := marginAll, right_m := marginAll,
                     bottom_m := marginAll, left_m := marginAll\<rparr>
              else m)
      | [p0, p1] \<Rightarrow>
          (let marginTopBottom = Number p0; marginLeftRight = Number p1
           in set_right_left marginLeftRight (set_top_bottom marginTopBottom m))
      | [p0, p1, p2] \<Rightarrow>
          (let marginTop = Number p0; marginLeftRight = Number p1; marginBottom = Number p2
           in set_bottom marginBottom (set_right_left marginLeftRight (set_top marginTop m)))
      | p0 # p1 # p2 # p3 # rest \<Rightarrow>
          (let marginTop = Number p0; marginRight = Number p1;
               marginBottom = Number p2; marginLeft = Number p3
           in set_left marginLeft
                (set_bottom marginBottom (set_right marginRight (set_top marginTop m))))
      | [] \<Rightarrow> m)"

text \<open>
  The argument is \<open>$child.attr('margin')\<close>: \<open>None\<close> is \<open>undefined\<close>. \<open>if (text)\<close> holds for
  a non-empty string only.
\<close>

definition parseMargin :: "string option \<Rightarrow> margin" where
  "parseMargin text =
     (let margin = \<lparr>top_m = Fin 0, right_m = Fin 0, bottom_m = Fin 0, left_m = Fin 0\<rparr>
      in case text of
           None \<Rightarrow> margin
         | Some txt \<Rightarrow> if txt \<noteq> [] then margin_switch (split txt CHR '','') margin else margin)"

section \<open>The render handler\<close>

text \<open>
  A child element of the layout, as the handler reads it: its identity as a DOM node and
  the four attributes \<open>dock\<close>, \<open>margin\<close>, \<open>width\<close> and \<open>height\<close>, each \<open>None\<close> when
  \<open>$child.attr\<close> returns \<open>undefined\<close>. Whether the element has an isolate scope is not an
  attribute of it: the handler takes that as a predicate on the children.
\<close>

record child =
  node :: nat
  attr_dock :: "string option"
  attr_margin :: "string option"
  attr_width :: "string option"
  attr_height :: "string option"

text \<open>
  What one call of \<open>positionChild\<close> that returns has written: the \<open>translate(x,y)\<close>
  transform of the element, only when \<open>x !== 0 || y !== 0\<close>, and the width and height on the
  child's isolate scope. The call returns only for a child that has an isolate scope;
  \<open>try_positionChild\<close> below is the call with its failure.
\<close>

record placement =
  elem :: child
  transform :: "(jsnum \<times> jsnum) option"
  scope_width :: jsnum
  scope_height :: jsnum

definition positionChild :: "child \<Rightarrow> jsnum \<Rightarrow> jsnum \<Rightarrow> jsnum \<Rightarrow> jsnum \<Rightarrow> placement" where
  "positionChild child x y width height =
     \<lparr>elem = child,
      transform = (if x \<noteq> Fin 0 \<or> y \<noteq> Fin 0 then Some (x, y) else None),
      scope_width = width,
      scope_height = height\<rparr>"

text \<open>
  The rectangle a placement gives its element: the offset of the transform, \<open>(0, 0)\<close> when
  none is written (the element then stays where an element without transform is), and the
  size on the scope.
\<close>

record rect =
  rect_x :: jsnum
  rect_y :: jsnum
  rect_width :: jsnum
  rect_height :: jsnum

definition rect_of :: "placement \<Rightarrow> rect" where
  "rect_of p =
     \<lparr>rect_x = (case transform p of None \<Rightarrow> Fin 0 | Some (x, y) \<Rightarrow> x),
      rect_y = (case transform p of None \<Rightarrow> Fin 0 | Some (x, y) \<Rightarrow> y),
      rect_width = scope_width p,
      rect_height = scope_height p\<rparr>"

text \<open>
  The variables of one run of the handler that its two loops share: \<open>x\<close>, \<open>y\<close>, \<open>width\<close>,
  \<open>height\<close>, \<open>undockedMargin\<close> and the \<open>undocked\<close> queue; with them the calls of
  \<open>positionChild\<close> made so far and the lines written to the console, both in order.
\<close>

record layout_state =
  var_x :: jsnum
  var_y :: jsnum
  var_width :: jsnum
  var_height :: jsnum
  undockedMargin :: margin
  undocked :: "(child \<times> margin) list"
  positioned :: "placement list"
  console :: "string list"

text \<open>The variables local to one call of the \<open>$.each\<close> callback.\<close>

record locals =
  childMargin :: margin
  childX :: jsnum
  childY :: jsnum
  childWidth :: jsnum
  childHeight :: jsnum
  childDockHeight :: jsnum
  childDockWidth :: jsnum

text \<open>A string or \<open>undefined\<close> used as a condition: true for a non-empty string.\<close>

definition truthy :: "string option \<Rightarrow> bool" where
  "truthy a = (case a of None \<Rightarrow> False | Some v \<Rightarrow> v \<noteq> [])"

text \<open>The head of the callback, up to the read of the \<open>dock\<close> attribute.\<close>

definition child_locals :: "layout_state \<Rightarrow> child \<Rightarrow> locals" where
  "child_locals s child =
     (let cm = parseMargin (attr_margin child);
          cx = js_add (var_x s) (left_m cm);
          cy = js_add (var_y s) (top_m cm);
          cw = (case attr_width child of
                  None \<Rightarrow> var_width s
                | Some w \<Rightarrow> if w \<noteq> [] then Number w else var_width s);
          ch = (case attr_height child of
                  None \<Rightarrow> var_height s
                | Some h \<Rightarrow> if h \<noteq> [] then Number h else var_height s)
      in \<lparr>childMargin = cm, childX = cx, childY = cy, childWidth = cw, childHeight = ch,
          childDockHeight = js_add (js_add (top_m cm) ch) (bottom_m cm),
          childDockWidth = js_add (js_add (left_m cm) cw) (right_m cm)\<rparr>)"

definition unsupported_dock :: "string \<Rightarrow> string" where
  "unsupported_dock dock =
     ''The dock attribute \"'' @ dock @
     ''\" is not supported by bnl-docked-layout. The element will be treated as undocked.''"

text \<open>
  The \<open>switch (dock)\<close>, entered with a non-empty \<open>dock\<close>. It returns the state, the
  locals and the variable \<open>dock\<close> as the switch leaves them; the default case logs and
  resets \<open>dock\<close> to \<open>undefined\<close>.
\<close>

definition dock_switch ::
  "string \<Rightarrow> layout_state \<Rightarrow> locals \<Rightarrow> layout_state \<times> locals \<times> string option" where
  "dock_switch dock s l =
     (let um = undockedMargin s; cm = childMargin l
      in
        if dock = ''top'' then
          (s\<lparr>undockedMargin :=
               um\<lparr>top_m := Math_max (js_add (var_y s) (childDockHeight l)) (top_m um)\<rparr>\<rparr>,
           l\<lparr>childWidth := js_sub (childWidth l) (js_add (left_m cm) (right_m cm))\<rparr>,
           Some dock)
        else if dock = ''right'' then
          (s\<lparr>undockedMargin :=
               um\<lparr>right_m := Math_min (js_sub (var_width s) (childDockWidth l)) (right_m um)\<rparr>\<rparr>,
           l\<lparr>childX := js_sub (var_width s) (childDockWidth l),
             childHeight := js_sub (childHeight l) (js_add (top_m cm) (bottom_m cm))\<rparr>,
           Some dock)
        else if dock = ''bottom'' then
          (s\<lparr>undockedMargin :=
               um\<lparr>bottom_m := Math_min (js_sub (var_height s) (childDockHeight l)) (bottom_m um)\<rparr>\<rparr>,
           l\<lparr>childY := js_sub (var_height s) (childDockHeight l),
             childWidth := js_sub (childWidth l) (js_add (left_m cm) (right_m cm))\<rparr>,
           Some dock)
        else if dock = ''left'' then
          (s\<lparr>undockedMargin :=
               um\<lparr>left_m := Math_max (js_add (var_x s) (childDockWidth l)) (left_m um)\<rparr>\<rparr>,
           l\<lparr>childHeight := js_sub (childHeight l) (js_add (top_m cm) (bottom_m cm))\<rparr>,
           Some dock)
        else
          (s\<lparr>console := console s @ [unsupported_dock dock]\<rparr>, l, None))"

text \<open>
  The callback of \<open>$.each\<close> over the children, where its call of \<open>positionChild\<close>
  returns: a child that leaves the switch with a dock is positioned at once, any other is
  pushed on \<open>undocked\<close> with its margin.
\<close>

definition each_child :: "layout_state \<Rightarrow> child \<Rightarrow> layout_state" where
  "each_child s child =
     (let l = child_locals s child;
          dock = attr_dock child;
          (s1, l1, dock1) =
            (case dock of
               None \<Rightarrow> (s, l, dock)
             | Some d \<Rightarrow> if d \<noteq> [] then dock_switch d s l else (s, l, dock))
      in if truthy dock1
         then s1\<lparr>positioned := positioned s1 @
                  [positionChild child (childX l1) (childY l1) (childWidth l1) (childHeight l1)]\<rparr>
         else s1\<lparr>undocked := undocked s1 @ [(child, childMargin l1)]\<rparr>)"

text \<open>
  The body of the second loop, for one entry of \<open>undocked\<close>, where its call of
  \<open>positionChild\<close> returns.
\<close>

definition position_undocked :: "layout_state \<Rightarrow> child \<times> margin \<Rightarrow> layout_state" where
  "position_undocked s u =
     (let child = fst u;
          cm = snd u;
          um = undockedMargin s;
          cx = js_add (left_m um) (left_m cm);
          cy = js_add (top_m um) (top_m cm);
          cw = js_sub (js_sub (right_m um) (right_m cm)) cx;
          ch = js_sub (js_sub (bottom_m um) (bottom_m cm)) cy
      in s\<lparr>positioned := positioned s @ [positionChild child cx cy cw ch]\<rparr>)"

text \<open>
  The state the handler starts its first loop in, for the resolved \<open>width\<close> and \<open>height\<close>;
  the console already holds the line logged on entry.
\<close>

definition initial_state :: "string \<Rightarrow> jsnum \<Rightarrow> jsnum \<Rightarrow> layout_state" where
  "initial_state scope_id width height =
     \<lparr>var_x = Fin 0, var_y = Fin 0, var_width = width, var_height = height,
      undockedMargin = \<lparr>top_m = Fin 0, right_m = width, bottom_m = height, left_m = Fin 0\<rparr>,
      undocked = [],
      positioned = [],
      console = [''bnlDockedLayout render:'' @ scope_id]\<rparr>"

text \<open>The two loops, one after the other, where every call of \<open>positionChild\<close> returns.\<close>

definition layout :: "string \<Rightarrow> jsnum \<Rightarrow> jsnum \<Rightarrow> child list \<Rightarrow> layout_state" where
  "layout scope_id width height children =
     (let s1 = foldl each_child (initial_state scope_id width height) children
      in foldl position_undocked s1 (undocked s1))"

subsection \<open>The handler with its exceptions\<close>

text \<open>
  The two places where the handler can throw a TypeError: \<open>svg.clientWidth\<close> or
  \<open>svg.clientHeight\<close> read on an \<open>ownerSVGElement\<close> that is \<open>null\<close>, and \<open>childScope.width\<close>
  written in \<open>positionChild\<close> on a child whose \<open>isolateScope()\<close> is \<open>undefined\<close>. The second
  is thrown after the transform of that child has been written, so it carries the child and
  the transform written, if any.
\<close>

datatype type_error =
  NullOwnerSVG
| UndefinedScope child "(jsnum \<times> jsnum) option"

text \<open>
  A run of the handler that ended in an exception: the error, and what the run had done
  before it, the completed calls of \<open>positionChild\<close> and the lines on the console.
\<close>

record aborted =
  cause :: type_error
  placed_before :: "placement list"
  logged_before :: "string list"

text \<open>
  \<open>positionChild\<close> as it is called: \<open>scoped child\<close> tells whether
  \<open>angular.element(child).isolateScope()\<close> is defined.
\<close>

definition try_positionChild ::
  "(child \<Rightarrow> bool) \<Rightarrow> child \<Rightarrow> jsnum \<Rightarrow> jsnum \<Rightarrow> jsnum \<Rightarrow> jsnum \<Rightarrow> type_error + placement" where
  "try_positionChild scoped child x y width height =
     (if scoped child then Inr (positionChild child x y width height)
      else Inl (UndefinedScope child (if x \<noteq> Fin 0 \<or> y \<noteq> Fin 0 then Some (x, y) else None)))"

text \<open>The callback of \<open>$.each\<close>: an exception of \<open>positionChild\<close> leaves it at once.\<close>

definition try_each_child ::
  "(child \<Rightarrow> bool) \<Rightarrow> layout_state \<Rightarrow> child \<Rightarrow> aborted + layout_state" where
  "try_each_child scoped s child =
     (let l = child_locals s child;
          dock = attr_dock child;
          (s1, l1, dock1) =
            (case dock of
               None \<Rightarrow> (s, l, dock)
             | Some d \<Rightarrow> if d \<noteq> [] then dock_switch d s l else (s, l, dock))
      in if truthy dock1
         then (case try_positionChild scoped child
                      (childX l1) (childY l1) (childWidth l1) (childHeight l1) of
                 Inl e \<Rightarrow>
                   Inl \<lparr>cause = e, placed_before = positioned s1, logged_before = console s1\<rparr>
               | Inr p \<Rightarrow> Inr (s1\<lparr>positioned := positioned s1 @ [p]\<rparr>))
         else Inr (s1\<lparr>undocked := undocked s1 @ [(child, childMargin l1)]\<rparr>))"

text \<open>\<open>$.each\<close> over the children: the exception of a callback ends the loop.\<close>

fun try_each :: "(child \<Rightarrow> bool) \<Rightarrow> layout_state \<Rightarrow> child list \<Rightarrow> aborted + layout_state" where
  "try_each scoped s [] = Inr s"
| "try_each scoped s (c # cs) =
     (case try_each_child scoped s c of
        Inl a \<Rightarrow> Inl a
      | Inr s' \<Rightarrow> try_each scoped s' cs)"

text \<open>The body of the second loop, and the loop.\<close>

definition try_position_undocked ::
  "(child \<Rightarrow> bool) \<Rightarrow> layout_state \<Rightarrow> child \<times> margin \<Rightarrow> aborted + layout_state" where
  "try_position_undocked scoped s u =
     (let child = fst u;
          cm = snd u;
          um = undockedMargin s;
          cx = js_add (left_m um) (left_m cm);
          cy = js_add (top_m um) (top_m cm);
          cw = js_sub (js_sub (right_m um) (right_m cm)) cx;
          ch = js_sub (js_sub (bottom_m um) (bottom_m cm)) cy
      in case try_positionChild scoped child cx cy cw ch of
           Inl e \<Rightarrow>
             Inl \<lparr>cause = e, placed_before = positioned s, logged_before = console s\<rparr>
         | Inr p \<Rightarrow> Inr (s\<lparr>positioned := positioned s @ [p]\<rparr>))"

fun try_undocked ::
  "(child \<Rightarrow> bool) \<Rightarrow> layout_state \<Rightarrow> (child \<times> margin) list \<Rightarrow> aborted + layout_state" where
  "try_undocked scoped s [] = Inr s"
| "try_undocked scoped s (u # us) =
     (case try_position_undocked scoped s u of
        Inl a \<Rightarrow> Inl a
      | Inr s' \<Rightarrow> try_undocked scoped s' us)"

text \<open>
  \<open>$scope.width ? $scope.width : svg.clientWidth\<close>: the scope's value unless it is
  \<open>undefined\<close>, 0 or NaN; then the client size of the svg element, \<open>None\<close> standing for an
  \<open>ownerSVGElement\<close> that is \<open>null\<close>, on which the read throws.
\<close>

definition scope_or_client :: "jsnum option \<Rightarrow> jsnum option \<Rightarrow> type_error + jsnum" where
  "scope_or_client scope_size client =
     (let read_client = (case client of None \<Rightarrow> Inl NullOwnerSVG | Some v \<Rightarrow> Inr v)
      in case scope_size of
           None \<Rightarrow> read_client
         | Some v \<Rightarrow> if v \<noteq> NaN \<and> v \<noteq> Fin 0 then Inr v else read_client)"

text \<open>
  The handler of \<open>bnl-chart-render\<close>: from the scope's id, the predicate that tells which
  children have an isolate scope, the scope's width and height, the client width and height
  of the owning svg element (\<open>None\<close> when there is none) and the children of the layout
  element, to the state it ends in, or to the exception that ends it. The line on the
  console is logged before anything is read.
\<close>

definition render ::
  "string \<Rightarrow> (child \<Rightarrow> bool) \<Rightarrow> jsnum option \<Rightarrow> jsnum option \<Rightarrow> (jsnum \<times> jsnum) option \<Rightarrow>
   child list \<Rightarrow> aborted + layout_state" where
  "render scope_id scoped scope_w scope_h svg children =
     (case scope_or_client scope_w (map_option fst svg) of
        Inl e \<Rightarrow>
          Inl \<lparr>cause = e, placed_before = [],
               logged_before = [''bnlDockedLayout render:'' @ scope_id]\<rparr>
      | Inr width \<Rightarrow>
          (case scope_or_client scope_h (map_option snd svg) of
             Inl e \<Rightarrow>
               Inl \<lparr>cause = e, placed_before = [],
                    logged_before = [''bnlDockedLayout render:'' @ scope_id]\<rparr>
           | Inr height \<Rightarrow>
               (case try_each scoped (initial_state scope_id width height) children of
                  Inl a \<Rightarrow> Inl a
                | Inr s1 \<Rightarrow> try_undocked scoped s1 (undocked s1))))"

section \<open>Notions used in the statements\<close>

text \<open>A child whose \<open>dock\<close> attribute is one of the four cases of the switch.\<close>

definition recognized :: "child \<Rightarrow> bool" where
  "recognized c = (attr_dock c \<in> {Some ''top'', Some ''right'', Some ''bottom'', Some ''left''})"

text \<open>The console lines a child that is not recognized causes: none without a dock.\<close>

definition warning_of :: "child \<Rightarrow> string list" where
  "warning_of c =
     (case attr_dock c of
        None \<Rightarrow> []
      | Some d \<Rightarrow> if d \<noteq> [] then [unsupported_dock d] else [])"

text \<open>Two states with the same \<open>x\<close>, \<open>y\<close>, \<open>width\<close> and \<open>height\<close>.\<close>

definition same_vars :: "layout_state \<Rightarrow> layout_state \<Rightarrow> bool" where
  "same_vars s t =
     (var_x s = var_x t \<and> var_y s = var_y t \<and>
      var_width s = var_width t \<and> var_height s = var_height t)"

text \<open>The call of \<open>positionChild\<close> that the first loop makes for a child, in state \<open>s\<close>.\<close>

definition docked_placement :: "layout_state \<Rightarrow> child \<Rightarrow> placement" where
  "docked_placement s c = last (positioned (each_child s c))"

text \<open>The call of \<open>positionChild\<close> of the second loop, for the frame \<open>F\<close> and a queue entry.\<close>

definition undocked_placement :: "margin \<Rightarrow> child \<times> margin \<Rightarrow> placement" where
  "undocked_placement F u =
     positionChild (fst u)
       (js_add (left_m F) (left_m (snd u)))
       (js_add (top_m F) (top_m (snd u)))
       (js_sub (js_sub (right_m F) (right_m (snd u))) (js_add (left_m F) (left_m (snd u))))
       (js_sub (js_sub (bottom_m F) (bottom_m (snd u))) (js_add (top_m F) (top_m (snd u))))"

text \<open>
  The rectangle of a child read back from the calls of \<open>positionChild\<close> a run has made:
  that of the first call for the child, \<open>None\<close> when there is none.
\<close>

definition rect_for :: "placement list \<Rightarrow> child \<Rightarrow> rect option" where
  "rect_for ps c = map_option rect_of (find (\<lambda>p. elem p = c) ps)"

text \<open>What a guarded assignment of \<open>v\<close> leaves in a field that held 0.\<close>

definition or_zero :: "jsnum \<Rightarrow> jsnum" where
  "or_zero v = (if isNaN v then Fin 0 else v)"

text \<open>
  A bound that has not moved back: the new value is NaN, or it is at least (at most) the
  old one. A frame shrinks when its top and left bounds are not below, and its right and
  bottom bounds not above, what they were.
\<close>

definition not_below :: "jsnum \<Rightarrow> jsnum \<Rightarrow> bool" where
  "not_below old new = (isNaN new \<or> js_le old new)"

definition not_above :: "jsnum \<Rightarrow> jsnum \<Rightarrow> bool" where
  "not_above old new = (isNaN new \<or> js_le new old)"

definition frame_shrinks :: "margin \<Rightarrow> margin \<Rightarrow> bool" where
  "frame_shrinks F F' =
     (not_below (top_m F) (top_m F') \<and> not_below (left_m F) (left_m F') \<and>
      not_above (right_m F) (right_m F') \<and> not_above (bottom_m F) (bottom_m F'))"

section \<open>Auxiliary facts\<close>

subsection \<open>Numbers and placements\<close>

lemma Math_max_commute: "Math_max a b = Math_max b a"
  by (cases a; cases b) (auto simp: Math_max_def isNaN_def)

lemma Math_min_commute: "Math_min a b = Math_min b a"
  by (cases a; cases b) (auto simp: Math_min_def isNaN_def)

lemma rect_of_positionChild:
  "rect_of (positionChild c x y w h) = \<lparr>rect_x = x, rect_y = y, rect_width = w, rect_height = h\<rparr>"
  by (simp add: rect_of_def positionChild_def)

lemma elem_positionChild: "elem (positionChild c x y w h) = c"
  by (simp add: positionChild_def)

lemma each_child_top:
  assumes "attr_dock c = Some ''top''"
  shows "each_child s c =
    s\<lparr>undockedMargin := (undockedMargin s)\<lparr>top_m :=
          Math_max (js_add (var_y s) (childDockHeight (child_locals s c))) (top_m (undockedMargin s))\<rparr>,
      positioned := positioned s @
        [positionChild c (childX (child_locals s c)) (childY (child_locals s c))
           (js_sub (childWidth (child_locals s c))
              (js_add (left_m (childMargin (child_locals s c))) (right_m (childMargin (child_locals s c)))))
           (childHeight (child_locals s c))]\<rparr>"
  using assms by (simp add: each_child_def dock_switch_def truthy_def Let_def)

lemma each_child_right:
  assumes "attr_dock c = Some ''right''"
  shows "each_child s c =
    s\<lparr>undockedMargin := (undockedMargin s)\<lparr>right_m :=
          Math_min (js_sub (var_width s) (childDockWidth (child_locals s c))) (right_m (undockedMargin s))\<rparr>,
      positioned := positioned s @
        [positionChild c (js_sub (var_width s) (childDockWidth (child_locals s c)))
           (childY (child_locals s c))
           (childWidth (child_locals s c))
           (js_sub (childHeight (child_locals s c))
              (js_add (top_m (childMargin (child_locals s c))) (bottom_m (childMargin (child_locals s c)))))]\<rparr>"
  using assms by (simp add: each_child_def dock_switch_def truthy_def Let_def)

lemma each_child_bottom:
  assumes "attr_dock c = Some ''bottom''"
  shows "each_child s c =
    s\<lparr>undockedMargin := (undockedMargin s)\<lparr>bottom_m :=
          Math_min (js_sub (var_height s) (childDockHeight (child_locals s c))) (bottom_m (undockedMargin s))\<rparr>,
      positioned := positioned s @
        [positionChild c (childX (child_locals s c))
           (js_sub (var_height s) (childDockHeight (child_locals s c)))
           (js_sub (childWidth (child_locals s c))
              (js_add (left_m (childMargin (child_locals s c))) (right_m (childMargin (child_locals s c)))))
           (childHeight (child_locals s c))]\<rparr>"
  using assms by (simp add: each_child_def dock_switch_def truthy_def Let_def)

lemma each_child_left:
  assumes "attr_dock c = Some ''left''"
  shows "each_child s c =
    s\<lparr>undockedMargin := (undockedMargin s)\<lparr>left_m :=
          Math_max (js_add (var_x s) (childDockWidth (child_locals s c))) (left_m (undockedMargin s))\<rparr>,
      positioned := positioned s @
        [positionChild c (childX (child_locals s c)) (childY (child_locals s c))
           (childWidth (child_locals s c))
           (js_sub (childHeight (child_locals s c))
              (js_add (top_m (childMargin (child_locals s c))) (bottom_m (childMargin (child_locals s c)))))]\<rparr>"
  using assms by (simp add: each_child_def dock_switch_def truthy_def Let_def)

lemma each_child_unrecognized:
  assumes "\<not> recognized c"
  shows "each_child s c =
    s\<lparr>undocked := undocked s @ [(c, parseMargin (attr_margin c))],
      console := console s @ warning_of c\<rparr>"
proof (cases "attr_dock c")
  case None
  then show ?thesis
    by (simp add: each_child_def truthy_def Let_def warning_of_def child_locals_def)
next
  case (Some d)
  with assms have "d \<noteq> ''top''" "d \<noteq> ''right''" "d \<noteq> ''bottom''" "d \<noteq> ''left''"
    by (auto simp: recognized_def)
  with Some show ?thesis
    by (simp add: each_child_def dock_switch_def truthy_def Let_def warning_of_def child_locals_def)
qed

lemma recognized_cases:
  "recognized c \<Longrightarrow>
     attr_dock c = Some ''top'' \<or> attr_dock c = Some ''right'' \<or>
     attr_dock c = Some ''bottom'' \<or> attr_dock c = Some ''left''"
  by (simp add: recognized_def)

lemma child_locals_cong: "same_vars s t \<Longrightarrow> child_locals s c = child_locals t c"
  by (simp add: child_locals_def same_vars_def Let_def split: option.splits)

lemma each_child_vars: "same_vars (each_child s c) s"
proof (cases "recognized c")
  case True
  from recognized_cases[OF this] show ?thesis
    by (auto simp: each_child_top each_child_right each_child_bottom each_child_left same_vars_def)
next
  case False
  then show ?thesis by (simp add: each_child_unrecognized same_vars_def)
qed

lemma same_vars_refl: "same_vars s s"
  by (simp add: same_vars_def)

lemma fold_vars: "same_vars (foldl each_child s cs) s"
proof (induction cs arbitrary: s)
  case Nil
  show ?case by (simp add: same_vars_refl)
next
  case (Cons c cs)
  have "same_vars (foldl each_child (each_child s c) cs) (each_child s c)" by (rule Cons.IH)
  then show ?case using each_child_vars[of s c] by (simp add: same_vars_def)
qed

lemma each_child_recognized:
  assumes "recognized c"
  shows "each_child s c =
    s\<lparr>undockedMargin := undockedMargin (each_child s c),
      positioned := positioned s @ [docked_placement s c]\<rparr>"
  using recognized_cases[OF assms]
  by (auto simp: each_child_top each_child_right each_child_bottom each_child_left docked_placement_def)

lemma docked_placement_cong:
  assumes "same_vars s t" "recognized c"
  shows "docked_placement s c = docked_placement t c"
  using recognized_cases[OF assms(2)] child_locals_cong[OF assms(1), of c] assms(1)
  by (auto simp: each_child_top each_child_right each_child_bottom each_child_left
      docked_placement_def same_vars_def)

lemma each_child_frame_cong:
  assumes "same_vars s t" "undockedMargin s = undockedMargin t"
  shows "undockedMargin (each_child s c) = undockedMargin (each_child t c)"
proof (cases "recognized c")
  case True
  from recognized_cases[OF this] child_locals_cong[OF assms(1), of c] assms show ?thesis
    by (auto simp: each_child_top each_child_right each_child_bottom each_child_left same_vars_def)
next
  case False
  then show ?thesis using assms by (simp add: each_child_unrecognized)
qed

lemma fold_frame_cong:
  "same_vars s t \<Longrightarrow> undockedMargin s = undockedMargin t \<Longrightarrow>
     undockedMargin (foldl each_child s cs) = undockedMargin (foldl each_child t cs)"
proof (induction cs arbitrary: s t)
  case Nil
  then show ?case by simp
next
  case (Cons c cs)
  have "same_vars (each_child s c) (each_child t c)"
    using each_child_vars[of s c] each_child_vars[of t c] Cons.prems(1)
    by (simp add: same_vars_def)
  moreover have "undockedMargin (each_child s c) = undockedMargin (each_child t c)"
    by (rule each_child_frame_cong[OF Cons.prems])
  ultimately show ?case using Cons.IH by simp
qed

lemma fold_undocked:
  "undocked (foldl each_child s cs) =
     undocked s @ map (\<lambda>c. (c, parseMargin (attr_margin c))) (filter (\<lambda>c. \<not> recognized c) cs)"
proof (induction cs arbitrary: s)
  case Nil
  show ?case by simp
next
  case (Cons c cs)
  show ?case
  proof (cases "recognized c")
    case True
    have "undocked (each_child s c) = undocked s"
      by (subst each_child_recognized[OF True]) simp
    with True Cons.IH[of "each_child s c"] show ?thesis by simp
  next
    case False
    then show ?thesis using Cons.IH[of "each_child s c"] by (simp add: each_child_unrecognized)
  qed
qed

lemma fold_console:
  "console (foldl each_child s cs) =
     console s @ concat (map warning_of (filter (\<lambda>c. \<not> recognized c) cs))"
proof (induction cs arbitrary: s)
  case Nil
  show ?case by simp
next
  case (Cons c cs)
  show ?case
  proof (cases "recognized c")
    case True
    have "console (each_child s c) = console s"
      by (subst each_child_recognized[OF True]) simp
    with True Cons.IH[of "each_child s c"] show ?thesis by simp
  next
    case False
    then show ?thesis using Cons.IH[of "each_child s c"] by (simp add: each_child_unrecognized)
  qed
qed

lemma fold_positioned:
  "positioned (foldl each_child s cs) =
     positioned s @ map (docked_placement s) (filter recognized cs)"
proof (induction cs arbitrary: s)
  case Nil
  show ?case by simp
next
  case (Cons c cs)
  have eq: "map (docked_placement (each_child s c)) (filter recognized cs) =
            map (docked_placement s) (filter recognized cs)"
    using docked_placement_cong[OF each_child_vars[of s c]] by simp
  show ?case
  proof (cases "recognized c")
    case True
    have "positioned (each_child s c) = positioned s @ [docked_placement s c]"
      by (subst each_child_recognized[OF True]) simp
    with True Cons.IH[of "each_child s c"] eq show ?thesis by simp
  next
    case False
    then show ?thesis using Cons.IH[of "each_child s c"] eq by (simp add: each_child_unrecognized)
  qed
qed

lemma fold_frame_filter:
  "undockedMargin (foldl each_child s cs) = undockedMargin (foldl each_child s (filter recognized cs))"
proof (induction cs arbitrary: s)
  case Nil
  show ?case by simp
next
  case (Cons c cs)
  show ?case
  proof (cases "recognized c")
    case True
    then show ?thesis using Cons.IH[of "each_child s c"] by simp
  next
    case False
    have "same_vars (each_child s c) s" by (rule each_child_vars)
    moreover have "undockedMargin (each_child s c) = undockedMargin s"
      using False by (simp add: each_child_unrecognized)
    ultimately have "undockedMargin (foldl each_child (each_child s c) cs) =
        undockedMargin (foldl each_child s cs)"
      by (rule fold_frame_cong)
    with False Cons.IH[of s] show ?thesis by simp
  qed
qed

lemma position_undocked_eq:
  "position_undocked s u = s\<lparr>positioned := positioned s @ [undocked_placement (undockedMargin s) u]\<rparr>"
  by (simp add: position_undocked_def undocked_placement_def Let_def)

lemma fold_position_undocked:
  "foldl position_undocked s us =
     s\<lparr>positioned := positioned s @ map (undocked_placement (undockedMargin s)) us\<rparr>"
proof (induction us arbitrary: s)
  case Nil
  show ?case by simp
next
  case (Cons u us)
  show ?case by (simp only: foldl.simps Cons.IH) (simp add: position_undocked_eq)
qed

lemma layout_eq:
  "layout sid w h cs =
     (foldl each_child (initial_state sid w h) cs)
       \<lparr>positioned :=
          map (docked_placement (initial_state sid w h)) (filter recognized cs) @
          map (undocked_placement (undockedMargin (foldl each_child (initial_state sid w h) cs)))
            (map (\<lambda>c. (c, parseMargin (attr_margin c))) (filter (\<lambda>c. \<not> recognized c) cs))\<rparr>"
  by (simp add: layout_def Let_def fold_position_undocked fold_positioned fold_undocked initial_state_def)

subsection \<open>Margins\<close>

lemmas set_field_defs = set_top_bottom_def set_right_left_def set_top_def set_right_def
  set_bottom_def set_left_def

lemma parseMargin_parts:
  "str \<noteq> [] \<Longrightarrow> parseMargin (Some str) =
     margin_switch (split str CHR '','') \<lparr>top_m = Fin 0, right_m = Fin 0, bottom_m = Fin 0, left_m = Fin 0\<rparr>"
  by (simp add: parseMargin_def)

lemma margin_switch_closed:
  "margin_switch [a] \<lparr>top_m = Fin 0, right_m = Fin 0, bottom_m = Fin 0, left_m = Fin 0\<rparr> =
     \<lparr>top_m = or_zero (Number a), right_m = or_zero (Number a),
      bottom_m = or_zero (Number a), left_m = or_zero (Number a)\<rparr>"
  "margin_switch [a, b] \<lparr>top_m = Fin 0, right_m = Fin 0, bottom_m = Fin 0, left_m = Fin 0\<rparr> =
     \<lparr>top_m = or_zero (Number a), right_m = or_zero (Number b),
      bottom_m = or_zero (Number a), left_m = or_zero (Number b)\<rparr>"
  "margin_switch [a, b, c] \<lparr>top_m = Fin 0, right_m = Fin 0, bottom_m = Fin 0, left_m = Fin 0\<rparr> =
     \<lparr>top_m = or_zero (Number a), right_m = or_zero (Number b),
      bottom_m = or_zero (Number c), left_m = or_zero (Number b)\<rparr>"
  "margin_switch (a # b # c # d # rest) \<lparr>top_m = Fin 0, right_m = Fin 0, bottom_m = Fin 0, left_m = Fin 0\<rparr> =
     \<lparr>top_m = or_zero (Number a), right_m = or_zero (Number b),
      bottom_m = or_zero (Number c), left_m = or_zero (Number d)\<rparr>"
  by (simp_all add: margin_switch_def set_field_defs or_zero_def Let_def)

lemma or_zero_not_NaN: "\<not> isNaN (or_zero v)"
  by (simp add: or_zero_def isNaN_def)

lemma margin_switch_not_NaN:
  "\<not> isNaN (top_m (margin_switch ps \<lparr>top_m = Fin 0, right_m = Fin 0, bottom_m = Fin 0, left_m = Fin 0\<rparr>)) \<and>
   \<not> isNaN (right_m (margin_switch ps \<lparr>top_m = Fin 0, right_m = Fin 0, bottom_m = Fin 0, left_m = Fin 0\<rparr>)) \<and>
   \<not> isNaN (bottom_m (margin_switch ps \<lparr>top_m = Fin 0, right_m = Fin 0, bottom_m = Fin 0, left_m = Fin 0\<rparr>)) \<and>
   \<not> isNaN (left_m (margin_switch ps \<lparr>top_m = Fin 0, right_m = Fin 0, bottom_m = Fin 0, left_m = Fin 0\<rparr>))"
proof -
  consider "ps = []" | a where "ps = [a]" | a b where "ps = [a, b]" | a b c where "ps = [a, b, c]"
    | a b c d rest where "ps = a # b # c # d # rest"
    by (cases ps rule: list.exhaust; simp) (metis list.exhaust)
  then show ?thesis
  proof cases
    case 1
    then show ?thesis by (simp add: margin_switch_def isNaN_def)
  qed (simp_all add: margin_switch_closed or_zero_not_NaN)
qed

lemma parseMargin_not_NaN:
  "\<not> isNaN (top_m (parseMargin attr)) \<and> \<not> isNaN (right_m (parseMargin attr)) \<and>
   \<not> isNaN (bottom_m (parseMargin attr)) \<and> \<not> isNaN (left_m (parseMargin attr))"
proof (cases "truthy attr")
  case True
  then obtain str where "attr = Some str" "str \<noteq> []"
    by (auto simp: truthy_def split: option.splits)
  then show ?thesis using margin_switch_not_NaN by (simp add: parseMargin_parts)
next
  case False
  then have "parseMargin attr = \<lparr>top_m = Fin 0, right_m = Fin 0, bottom_m = Fin 0, left_m = Fin 0\<rparr>"
    by (auto simp: truthy_def parseMargin_def split: option.splits)
  then show ?thesis by (simp add: isNaN_def)
qed

subsection \<open>The two loops\<close>

lemma elem_docked_placement: "recognized c \<Longrightarrow> elem (docked_placement s c) = c"
  using recognized_cases[of c]
  by (auto simp: docked_placement_def each_child_top each_child_right each_child_bottom
      each_child_left elem_positionChild)

lemma elem_undocked_placement: "elem (undocked_placement F u) = fst u"
  by (simp add: undocked_placement_def elem_positionChild)

lemma rect_of_undocked_placement:
  "rect_of (undocked_placement F u) =
     \<lparr>rect_x = js_add (left_m F) (left_m (snd u)),
      rect_y = js_add (top_m F) (top_m (snd u)),
      rect_width = js_sub (js_sub (right_m F) (right_m (snd u))) (js_add (left_m F) (left_m (snd u))),
      rect_height = js_sub (js_sub (bottom_m F) (bottom_m (snd u))) (js_add (top_m F) (top_m (snd u)))\<rparr>"
  by (simp add: undocked_placement_def rect_of_positionChild)

lemma child_locals_margin: "childMargin (child_locals s c) = parseMargin (attr_margin c)"
  by (simp add: child_locals_def Let_def)

lemma child_locals_xy:
  "childX (child_locals s c) = js_add (var_x s) (left_m (parseMargin (attr_margin c)))"
  "childY (child_locals s c) = js_add (var_y s) (top_m (parseMargin (attr_margin c)))"
  by (simp_all add: child_locals_def Let_def)

lemma child_locals_dock:
  "childDockWidth (child_locals s c) =
     js_add (js_add (left_m (parseMargin (attr_margin c))) (childWidth (child_locals s c)))
       (right_m (parseMargin (attr_margin c)))"
  "childDockHeight (child_locals s c) =
     js_add (js_add (top_m (parseMargin (attr_margin c))) (childHeight (child_locals s c)))
       (bottom_m (parseMargin (attr_margin c)))"
  by (simp_all add: child_locals_def Let_def)

lemma layout_undockedMargin:
  "undockedMargin (layout sid w h cs) = undockedMargin (foldl each_child (initial_state sid w h) cs)"
  by (simp add: layout_eq)

lemma layout_positioned:
  "positioned (layout sid w h cs) =
     map (docked_placement (initial_state sid w h)) (filter recognized cs) @
     map (undocked_placement (undockedMargin (foldl each_child (initial_state sid w h) cs)))
       (map (\<lambda>c. (c, parseMargin (attr_margin c))) (filter (\<lambda>c. \<not> recognized c) cs))"
  by (simp add: layout_eq)

lemma layout_elems:
  "map elem (positioned (layout sid w h cs)) =
     filter recognized cs @ filter (\<lambda>c. \<not> recognized c) cs"
proof -
  have "map elem (map (docked_placement (initial_state sid w h)) (filter recognized cs)) =
      filter recognized cs"
    by (induction cs) (simp_all add: elem_docked_placement)
  moreover have "map elem (map (undocked_placement F)
      (map (\<lambda>c. (c, parseMargin (attr_margin c))) (filter (\<lambda>c. \<not> recognized c) cs))) =
      filter (\<lambda>c. \<not> recognized c) cs" for F
    by (induction cs) (simp_all add: elem_undocked_placement)
  ultimately show ?thesis by (simp only: layout_positioned map_append)
qed

lemma unrecognized_dock:
  assumes "attr_dock c = Some d" "d \<noteq> []" "d \<notin> {''top'', ''right'', ''bottom'', ''left''}"
  shows "\<not> recognized c" "warning_of c = [unsupported_dock d]"
  using assms by (auto simp: recognized_def warning_of_def)

lemma layout_console:
  "console (layout sid w h cs) =
     (''bnlDockedLayout render:'' @ sid) # concat (map warning_of (filter (\<lambda>c. \<not> recognized c) cs))"
  by (simp add: layout_eq fold_console initial_state_def)

lemma layout_rects:
  "map rect_of (positioned (layout sid w h cs)) =
     map (\<lambda>c. rect_of (docked_placement (initial_state sid w h) c)) (filter recognized cs) @
     map (\<lambda>c. rect_of (undocked_placement
                 (undockedMargin (foldl each_child (initial_state sid w h) (filter recognized cs)))
                 (c, parseMargin (attr_margin c))))
       (filter (\<lambda>c. \<not> recognized c) cs)"
  by (simp add: layout_positioned comp_def fold_frame_filter[of _ cs])

lemma fold_vars_initial:
  "var_width (foldl each_child (initial_state sid w h) pre) = w"
  "var_height (foldl each_child (initial_state sid w h) pre) = h"
  "var_x (foldl each_child (initial_state sid w h) pre) = Fin 0"
  "var_y (foldl each_child (initial_state sid w h) pre) = Fin 0"
  using fold_vars[of "initial_state sid w h" pre]
  by (simp_all add: same_vars_def initial_state_def)

subsection \<open>The handler where nothing throws\<close>

lemma try_each_child_scoped:
  "scoped c \<Longrightarrow> try_each_child scoped s c = Inr (each_child s c)"
  by (simp add: try_each_child_def each_child_def try_positionChild_def Let_def
      split: prod.splits)

lemma try_each_scoped:
  "\<forall>c \<in> set cs. scoped c \<Longrightarrow> try_each scoped s cs = Inr (foldl each_child s cs)"
  by (induction cs arbitrary: s) (simp_all add: try_each_child_scoped)

lemma try_position_undocked_scoped:
  "scoped (fst u) \<Longrightarrow> try_position_undocked scoped s u = Inr (position_undocked s u)"
  by (simp add: try_position_undocked_def position_undocked_def try_positionChild_def Let_def)

lemma try_undocked_scoped:
  "\<forall>u \<in> set us. scoped (fst u) \<Longrightarrow>
     try_undocked scoped s us = Inr (foldl position_undocked s us)"
  by (induction us arbitrary: s) (simp_all add: try_position_undocked_scoped)

lemma render_scoped:
  assumes "\<forall>c \<in> set cs. scoped c"
    and "scope_or_client sw (map_option fst svg) = Inr w"
    and "scope_or_client sh (map_option snd svg) = Inr h"
  shows "render sid scoped sw sh svg cs = Inr (layout sid w h cs)"
proof -
  have "\<forall>u \<in> set (undocked (foldl each_child (initial_state sid w h) cs)). scoped (fst u)"
    using assms(1) by (auto simp: fold_undocked initial_state_def)
  then show ?thesis
    using assms by (simp add: render_def layout_def Let_def try_each_scoped try_undocked_scoped)
qed

lemma find_map_elem:
  assumes "\<And>x. x \<in> set xs \<Longrightarrow> elem (f x) = x"
  shows "find (\<lambda>p. elem p = c) (map f xs) = (if c \<in> set xs then Some (f c) else None)"
  using assms by (induction xs) auto

lemma find_append_cases:
  "find P (xs @ ys) = (case find P xs of None \<Rightarrow> find P ys | Some x \<Rightarrow> Some x)"
  by (induction xs) simp_all

lemma layout_rect_for:
  assumes "c \<in> set cs"
  shows "rect_for (positioned (layout sid w h cs)) c =
     Some (if recognized c then rect_of (docked_placement (initial_state sid w h) c)
           else rect_of (undocked_placement (undockedMargin (layout sid w h cs))
                  (c, parseMargin (attr_margin c))))"
proof -
  let ?F = "undockedMargin (foldl each_child (initial_state sid w h) cs)"
  have d: "find (\<lambda>p. elem p = c)
      (map (docked_placement (initial_state sid w h)) (filter recognized cs)) =
      (if c \<in> set (filter recognized cs) then Some (docked_placement (initial_state sid w h) c)
       else None)"
    by (rule find_map_elem) (simp add: elem_docked_placement)
  have u: "find (\<lambda>p. elem p = c)
      (map (\<lambda>c. undocked_placement ?F (c, parseMargin (attr_margin c)))
         (filter (\<lambda>c. \<not> recognized c) cs)) =
      (if c \<in> set (filter (\<lambda>c. \<not> recognized c) cs)
       then Some (undocked_placement ?F (c, parseMargin (attr_margin c))) else None)"
    by (rule find_map_elem) (simp add: elem_undocked_placement)
  show ?thesis
    using assms
    by (simp add: rect_for_def layout_positioned layout_undockedMargin find_append_cases d u
        comp_def)
qed

subsection \<open>Bounds that only move inwards\<close>

lemma js_le_refl: "\<not> isNaN a \<Longrightarrow> js_le a a"
  by (cases a) (simp_all add: isNaN_def)

lemma js_le_trans: "js_le a b \<Longrightarrow> js_le b c \<Longrightarrow> js_le a c"
  by (cases a; cases b; cases c) simp_all

lemma js_le_antisym: "js_le a b \<Longrightarrow> js_le b a \<Longrightarrow> a = b"
  by (cases a; cases b) simp_all

lemma js_le_not_NaN: "js_le a b \<Longrightarrow> \<not> isNaN a \<and> \<not> isNaN b"
  by (cases a; cases b) (simp_all add: isNaN_def)

lemma js_le_total: "\<not> isNaN a \<Longrightarrow> \<not> isNaN b \<Longrightarrow> js_le a b \<or> js_le b a"
  by (cases a; cases b) (auto simp: isNaN_def)

lemma not_below_refl: "not_below a a"
  using js_le_refl by (auto simp: not_below_def)

lemma not_above_refl: "not_above a a"
  using js_le_refl by (auto simp: not_above_def)

lemma not_below_trans: "not_below a b \<Longrightarrow> not_below b c \<Longrightarrow> not_below a c"
  unfolding not_below_def using js_le_trans js_le_not_NaN by blast

lemma not_above_trans: "not_above a b \<Longrightarrow> not_above b c \<Longrightarrow> not_above a c"
  unfolding not_above_def using js_le_trans js_le_not_NaN by blast

lemma not_below_max: "not_below b (Math_max a b)"
  using js_le_total[of a b] js_le_refl[of b] by (auto simp: not_below_def Math_max_def isNaN_def)

lemma not_above_min: "not_above b (Math_min a b)"
  using js_le_total[of a b] js_le_refl[of b] by (auto simp: not_above_def Math_min_def isNaN_def)

lemma not_below_not_lt: "not_below old new \<Longrightarrow> \<not> js_lt new old"
  unfolding not_below_def js_lt_def using js_le_antisym js_le_not_NaN by blast

lemma not_above_not_lt: "not_above old new \<Longrightarrow> \<not> js_lt old new"
  unfolding not_above_def js_lt_def using js_le_antisym js_le_not_NaN by blast

lemma frame_shrinks_refl: "frame_shrinks F F"
  by (simp add: frame_shrinks_def not_below_refl not_above_refl)

lemma frame_shrinks_trans: "frame_shrinks F G \<Longrightarrow> frame_shrinks G H \<Longrightarrow> frame_shrinks F H"
  unfolding frame_shrinks_def using not_below_trans not_above_trans by blast

lemma each_child_shrinks: "frame_shrinks (undockedMargin s) (undockedMargin (each_child s c))"
proof (cases "recognized c")
  case True
  from recognized_cases[OF this] show ?thesis
    by (auto simp: each_child_top each_child_right each_child_bottom each_child_left
        frame_shrinks_def not_below_refl not_above_refl not_below_max not_above_min)
next
  case False
  then show ?thesis by (simp add: each_child_unrecognized frame_shrinks_refl)
qed

lemma fold_shrinks: "frame_shrinks (undockedMargin s) (undockedMargin (foldl each_child s cs))"
proof (induction cs arbitrary: s)
  case Nil
  show ?case by (simp add: frame_shrinks_refl)
next
  case (Cons c cs)
  from each_child_shrinks[of s c] Cons.IH[of "each_child s c"] show ?case
    by (simp add: frame_shrinks_trans)
qed

lemma fold_positioned_frame_free:
  "positioned (foldl each_child (s\<lparr>undockedMargin := G\<rparr>) cs) = positioned (foldl each_child s cs)"
proof -
  have "same_vars (s\<lparr>undockedMargin := G\<rparr>) s" by (simp add: same_vars_def)
  then have "map (docked_placement (s\<lparr>undockedMargin := G\<rparr>)) (filter recognized cs) =
      map (docked_placement s) (filter recognized cs)"
    using docked_placement_cong by simp
  then show ?thesis by (simp add: fold_positioned)
qed

section \<open>Docked children\<close>

text \<open>
  Claim C1. A child whose dock is one of the four sides is positioned at once, by one call
  of \<open>positionChild\<close> for that child, and the undocked frame is updated on that side only.
  With \<open>m\<close> the parsed margin of the child, \<open>childWidth\<close> and \<open>childHeight\<close> the sizes
  resolved before the switch, \<open>dockWidth = m.left + childWidth + m.right\<close> and
  \<open>dockHeight = m.top + childHeight + m.bottom\<close>:
  \<^item> top: the frame's top becomes the maximum of its old value and \<open>y + dockHeight\<close>; the
    rectangle is at \<open>(x + m.left, y + m.top)\<close>, its width shrunk by \<open>m.left + m.right\<close>;
  \<^item> bottom: the frame's bottom becomes the minimum of its old value and
    \<open>height - dockHeight\<close>; the rectangle's y is \<open>height - dockHeight\<close>, its width shrunk by
    \<open>m.left + m.right\<close>;
  \<^item> left: the frame's left becomes the maximum of its old value and \<open>x + dockWidth\<close>; the
    rectangle is at \<open>(x + m.left, y + m.top)\<close>, its height shrunk by \<open>m.top + m.bottom\<close>;
  \<^item> right: the frame's right becomes the minimum of its old value and \<open>width - dockWidth\<close>;
    the rectangle's x is \<open>width - dockWidth\<close>, its height shrunk by \<open>m.top + m.bottom\<close>.

  In a parent of 200 by 100, a child with dock bottom, height 20 and margin \<open>0,0,5,0\<close> gets
  a rectangle with y = 75 and height 20.
\<close>

theorem docked_child_step:
  "let m = parseMargin (attr_margin c);
       l = child_locals s c;
       dockWidth = js_add (js_add (left_m m) (childWidth l)) (right_m m);
       dockHeight = js_add (js_add (top_m m) (childHeight l)) (bottom_m m);
       frame = undockedMargin s;
       s' = each_child s c
   in (recognized c \<longrightarrow>
         positioned s' = positioned s @ [docked_placement s c] \<and>
         elem (docked_placement s c) = c) \<and>
      (attr_dock c = Some ''top'' \<longrightarrow>
         undockedMargin s' =
           frame\<lparr>top_m := Math_max (top_m frame) (js_add (var_y s) dockHeight)\<rparr> \<and>
         rect_of (docked_placement s c) =
           \<lparr>rect_x = js_add (var_x s) (left_m m),
            rect_y = js_add (var_y s) (top_m m),
            rect_width = js_sub (childWidth l) (js_add (left_m m) (right_m m)),
            rect_height = childHeight l\<rparr>) \<and>
      (attr_dock c = Some ''bottom'' \<longrightarrow>
         undockedMargin s' =
           frame\<lparr>bottom_m := Math_min (bottom_m frame) (js_sub (var_height s) dockHeight)\<rparr> \<and>
         rect_of (docked_placement s c) =
           \<lparr>rect_x = js_add (var_x s) (left_m m),
            rect_y = js_sub (var_height s) dockHeight,
            rect_width = js_sub (childWidth l) (js_add (left_m m) (right_m m)),
            rect_height = childHeight l\<rparr>) \<and>
      (attr_dock c = Some ''left'' \<longrightarrow>
         undockedMargin s' =
           frame\<lparr>left_m := Math_max (left_m frame) (js_add (var_x s) dockWidth)\<rparr> \<and>
         rect_of (docked_placement s c) =
           \<lparr>rect_x = js_add (var_x s) (left_m m),
            rect_y = js_add (var_y s) (top_m m),
            rect_width = childWidth l,
            rect_height = js_sub (childHeight l) (js_add (top_m m) (bottom_m m))\<rparr>) \<and>
      (attr_dock c = Some ''right'' \<longrightarrow>
         undockedMargin s' =
           frame\<lparr>right_m := Math_min (right_m frame) (js_sub (var_width s) dockWidth)\<rparr> \<and>
         rect_of (docked_placement s c) =
           \<lparr>rect_x = js_sub (var_width s) dockWidth,
            rect_y = js_add (var_y s) (top_m m),
            rect_width = childWidth l,
            rect_height = js_sub (childHeight l) (js_add (top_m m) (bottom_m m))\<rparr>) \<and>
      map rect_of (positioned (layout sid (Fin 200) (Fin 100)
         [\<lparr>node = n, attr_dock = Some ''bottom'', attr_margin = Some ''0,0,5,0'',
           attr_width = None, attr_height = Some ''20''\<rparr>])) =
        [\<lparr>rect_x = Fin 0, rect_y = Fin 75, rect_width = Fin 200, rect_height = Fin 20\<rparr>]"
proof -
  have rec: "recognized c \<Longrightarrow>
      positioned (each_child s c) = positioned s @ [docked_placement s c] \<and>
      elem (docked_placement s c) = c"
    by (subst each_child_recognized) (simp_all add: elem_docked_placement)
  have top: "attr_dock c = Some ''top'' \<Longrightarrow>
      undockedMargin (each_child s c) = (undockedMargin s)\<lparr>top_m :=
        Math_max (top_m (undockedMargin s)) (js_add (var_y s) (childDockHeight (child_locals s c)))\<rparr> \<and>
      rect_of (docked_placement s c) =
        \<lparr>rect_x = childX (child_locals s c), rect_y = childY (child_locals s c),
         rect_width = js_sub (childWidth (child_locals s c))
           (js_add (left_m (childMargin (child_locals s c))) (right_m (childMargin (child_locals s c)))),
         rect_height = childHeight (child_locals s c)\<rparr>"
    by (simp add: docked_placement_def each_child_top rect_of_positionChild Math_max_commute)
  have bottom: "attr_dock c = Some ''bottom'' \<Longrightarrow>
      undockedMargin (each_child s c) = (undockedMargin s)\<lparr>bottom_m :=
        Math_min (bottom_m (undockedMargin s)) (js_sub (var_height s) (childDockHeight (child_locals s c)))\<rparr> \<and>
      rect_of (docked_placement s c) =
        \<lparr>rect_x = childX (child_locals s c),
         rect_y = js_sub (var_height s) (childDockHeight (child_locals s c)),
         rect_width = js_sub (childWidth (child_locals s c))
           (js_add (left_m (childMargin (child_locals s c))) (right_m (childMargin (child_locals s c)))),
         rect_height = childHeight (child_locals s c)\<rparr>"
    by (simp add: docked_placement_def each_child_bottom rect_of_positionChild Math_min_commute)
  have left: "attr_dock c = Some ''left'' \<Longrightarrow>
      undockedMargin (each_child s c) = (undockedMargin s)\<lparr>left_m :=
        Math_max (left_m (undockedMargin s)) (js_add (var_x s) (childDockWidth (child_locals s c)))\<rparr> \<and>
      rect_of (docked_placement s c) =
        \<lparr>rect_x = childX (child_locals s c), rect_y = childY (child_locals s c),
         rect_width = childWidth (child_locals s c),
         rect_height = js_sub (childHeight (child_locals s c))
           (js_add (top_m (childMargin (child_locals s c))) (bottom_m (childMargin (child_locals s c))))\<rparr>"
    by (simp add: docked_placement_def each_child_left rect_of_positionChild Math_max_commute)
  have right: "attr_dock c = Some ''right'' \<Longrightarrow>
      undockedMargin (each_child s c) = (undockedMargin s)\<lparr>right_m :=
        Math_min (right_m (undockedMargin s)) (js_sub (var_width s) (childDockWidth (child_locals s c)))\<rparr> \<and>
      rect_of (docked_placement s c) =
        \<lparr>rect_x = js_sub (var_width s) (childDockWidth (child_locals s c)),
         rect_y = childY (child_locals s c),
         rect_width = childWidth (child_locals s c),
         rect_height = js_sub (childHeight (child_locals s c))
           (js_add (top_m (childMargin (child_locals s c))) (bottom_m (childMargin (child_locals s c))))\<rparr>"
    by (simp add: docked_placement_def each_child_right rect_of_positionChild Math_min_commute)
  have scenario: "map rect_of (positioned (layout sid (Fin 200) (Fin 100)
         [\<lparr>node = n, attr_dock = Some ''bottom'', attr_margin = Some ''0,0,5,0'',
           attr_width = None, attr_height = Some ''20''\<rparr>])) =
        [\<lparr>rect_x = Fin 0, rect_y = Fin 75, rect_width = Fin 200, rect_height = Fin 20\<rparr>]"
    by code_simp
  show ?thesis
    unfolding Let_def
    using rec top bottom left right scenario
    by (simp add: child_locals_margin child_locals_xy child_locals_dock)
qed

text \<open>
  The four sides at a child with margin \<open>1,2,3,4\<close> in a parent of 200 by 100.
\<close>

theorem docked_child_step_witness:
  "undockedMargin (each_child (initial_state ''1'' (Fin 200) (Fin 100))
      \<lparr>node = 0, attr_dock = Some ''top'', attr_margin = Some ''1,2,3,4'',
       attr_width = None, attr_height = Some ''20''\<rparr>) =
     \<lparr>top_m = Fin 24, right_m = Fin 200, bottom_m = Fin 100, left_m = Fin 0\<rparr> \<and>
   rect_of (docked_placement (initial_state ''1'' (Fin 200) (Fin 100))
      \<lparr>node = 0, attr_dock = Some ''top'', attr_margin = Some ''1,2,3,4'',
       attr_width = None, attr_height = Some ''20''\<rparr>) =
     \<lparr>rect_x = Fin 4, rect_y = Fin 1, rect_width = Fin 194, rect_height = Fin 20\<rparr> \<and>
   undockedMargin (each_child (initial_state ''1'' (Fin 200) (Fin 100))
      \<lparr>node = 1, attr_dock = Some ''bottom'', attr_margin = Some ''1,2,3,4'',
       attr_width = None, attr_height = Some ''20''\<rparr>) =
     \<lparr>top_m = Fin 0, right_m = Fin 200, bottom_m = Fin 76, left_m = Fin 0\<rparr> \<and>
   rect_of (docked_placement (initial_state ''1'' (Fin 200) (Fin 100))
      \<lparr>node = 1, attr_dock = Some ''bottom'', attr_margin = Some ''1,2,3,4'',
       attr_width = None, attr_height = Some ''20''\<rparr>) =
     \<lparr>rect_x = Fin 4, rect_y = Fin 76, rect_width = Fin 194, rect_height = Fin 20\<rparr> \<and>
   undockedMargin (each_child (initial_state ''1'' (Fin 200) (Fin 100))
      \<lparr>node = 2, attr_dock = Some ''left'', attr_margin = Some ''1,2,3,4'',
       attr_width = Some ''50'', attr_height = None\<rparr>) =
     \<lparr>top_m = Fin 0, right_m = Fin 200, bottom_m = Fin 100, left_m = Fin 56\<rparr> \<and>
   rect_of (docked_placement (initial_state ''1'' (Fin 200) (Fin 100))
      \<lparr>node = 2, attr_dock = Some ''left'', attr_margin = Some ''1,2,3,4'',
       attr_width = Some ''50'', attr_height = None\<rparr>) =
     \<lparr>rect_x = Fin 4, rect_y = Fin 1, rect_width = Fin 50, rect_height = Fin 96\<rparr> \<and>
   undockedMargin (each_child (initial_state ''1'' (Fin 200) (Fin 100))
      \<lparr>node = 3, attr_dock = Some ''right'', attr_margin = Some ''1,2,3,4'',
       attr_width = Some ''50'', attr_height = None\<rparr>) =
     \<lparr>top_m = Fin 0, right_m = Fin 144, bottom_m = Fin 100, left_m = Fin 0\<rparr> \<and>
   rect_of (docked_placement (initial_state ''1'' (Fin 200) (Fin 100))
      \<lparr>node = 3, attr_dock = Some ''right'', attr_margin = Some ''1,2,3,4'',
       attr_width = Some ''50'', attr_height = None\<rparr>) =
     \<lparr>rect_x = Fin 144, rect_y = Fin 1, rect_width = Fin 50, rect_height = Fin 96\<rparr>"
proof -
  have m: "parseMargin (Some ''1,2,3,4'') =
      \<lparr>top_m = Fin 1, right_m = Fin 2, bottom_m = Fin 3, left_m = Fin 4\<rparr>"
    by code_simp
  have n: "Number ''20'' = Fin 20" "Number ''50'' = Fin 50"
    by code_simp+
  note ev = m n Let_def child_locals_def initial_state_def Math_max_def Math_min_def
    isNaN_def js_sub_def
  show ?thesis
    using docked_child_step[of "\<lparr>node = 0, attr_dock = Some ''top'', attr_margin = Some ''1,2,3,4'',
       attr_width = None, attr_height = Some ''20''\<rparr>" "initial_state ''1'' (Fin 200) (Fin 100)"]
      docked_child_step[of "\<lparr>node = 1, attr_dock = Some ''bottom'', attr_margin = Some ''1,2,3,4'',
       attr_width = None, attr_height = Some ''20''\<rparr>" "initial_state ''1'' (Fin 200) (Fin 100)"]
      docked_child_step[of "\<lparr>node = 2, attr_dock = Some ''left'', attr_margin = Some ''1,2,3,4'',
       attr_width = Some ''50'', attr_height = None\<rparr>" "initial_state ''1'' (Fin 200) (Fin 100)"]
      docked_child_step[of "\<lparr>node = 3, attr_dock = Some ''right'', attr_margin = Some ''1,2,3,4'',
       attr_width = Some ''50'', attr_height = None\<rparr>" "initial_state ''1'' (Fin 200) (Fin 100)"]
    by (simp add: ev)
qed

section \<open>Undocked children\<close>

text \<open>
  Claim C2. Once the first loop has processed every child, the frame is final: the second
  loop does not change it. The second loop then positions the children that are not
  recognized as docked (those without a dock, and those with an unsupported one), in the
  order of the input, after the placements of the first loop. A child with parsed margin
  \<open>m\<close> gets \<open>x = frame.left + m.left\<close>, \<open>y = frame.top + m.top\<close>,
  \<open>width = (frame.right - m.right) - x\<close> and \<open>height = (frame.bottom - m.bottom) - y\<close>.

  In a parent of 200 by 100, a first child docked left with width 50 and a second child
  without dock get the rectangles (0, 0, 50, 100) and (50, 0, 150, 100).
\<close>

theorem undocked_children_final_frame:
  "let s1 = foldl each_child (initial_state sid w h) cs;
       frame = undockedMargin s1;
       s2 = layout sid w h cs
   in undockedMargin s2 = frame \<and>
      map elem (positioned s1) = filter recognized cs \<and>
      positioned s2 = positioned s1 @
        map (\<lambda>c. let m = parseMargin (attr_margin c);
                    cx = js_add (left_m frame) (left_m m);
                    cy = js_add (top_m frame) (top_m m)
                in positionChild c cx cy
                     (js_sub (js_sub (right_m frame) (right_m m)) cx)
                     (js_sub (js_sub (bottom_m frame) (bottom_m m)) cy))
            (filter (\<lambda>c. \<not> recognized c) cs) \<and>
      map rect_of (drop (length (filter recognized cs)) (positioned s2)) =
        map (\<lambda>c. let m = parseMargin (attr_margin c);
                    cx = js_add (left_m frame) (left_m m);
                    cy = js_add (top_m frame) (top_m m)
                in \<lparr>rect_x = cx, rect_y = cy,
                    rect_width = js_sub (js_sub (right_m frame) (right_m m)) cx,
                    rect_height = js_sub (js_sub (bottom_m frame) (bottom_m m)) cy\<rparr>)
            (filter (\<lambda>c. \<not> recognized c) cs) \<and>
      map rect_of (positioned (layout sid (Fin 200) (Fin 100)
         [\<lparr>node = n1, attr_dock = Some ''left'', attr_margin = None,
           attr_width = Some ''50'', attr_height = None\<rparr>,
          \<lparr>node = n2, attr_dock = None, attr_margin = None,
           attr_width = None, attr_height = None\<rparr>])) =
        [\<lparr>rect_x = Fin 0, rect_y = Fin 0, rect_width = Fin 50, rect_height = Fin 100\<rparr>,
         \<lparr>rect_x = Fin 50, rect_y = Fin 0, rect_width = Fin 150, rect_height = Fin 100\<rparr>]"
proof -
  define s1 where "s1 = foldl each_child (initial_state sid w h) cs"
  define frame where "frame = undockedMargin s1"
  have p1: "positioned s1 = map (docked_placement (initial_state sid w h)) (filter recognized cs)"
    by (simp add: s1_def fold_positioned initial_state_def)
  have "map elem (map (docked_placement s0) (filter recognized xs)) = filter recognized xs"
    for s0 xs
    by (induction xs) (simp_all add: elem_docked_placement)
  then have e1: "map elem (positioned s1) = filter recognized cs"
    by (simp only: p1)
  have p2: "positioned (layout sid w h cs) = positioned s1 @
      map (undocked_placement frame)
        (map (\<lambda>c. (c, parseMargin (attr_margin c))) (filter (\<lambda>c. \<not> recognized c) cs))"
    by (simp only: layout_positioned p1 frame_def) (simp add: s1_def)
  have len: "length (positioned s1) = length (filter recognized cs)"
    by (simp add: p1)
  have scenario: "map rect_of (positioned (layout sid (Fin 200) (Fin 100)
         [\<lparr>node = n1, attr_dock = Some ''left'', attr_margin = None,
           attr_width = Some ''50'', attr_height = None\<rparr>,
          \<lparr>node = n2, attr_dock = None, attr_margin = None,
           attr_width = None, attr_height = None\<rparr>])) =
        [\<lparr>rect_x = Fin 0, rect_y = Fin 0, rect_width = Fin 50, rect_height = Fin 100\<rparr>,
         \<lparr>rect_x = Fin 50, rect_y = Fin 0, rect_width = Fin 150, rect_height = Fin 100\<rparr>]"
    by code_simp
  have "undockedMargin (layout sid w h cs) = frame"
    by (simp add: layout_undockedMargin frame_def s1_def)
  moreover have "positioned (layout sid w h cs) = positioned s1 @
        map (\<lambda>c. let m = parseMargin (attr_margin c);
                    cx = js_add (left_m frame) (left_m m);
                    cy = js_add (top_m frame) (top_m m)
                in positionChild c cx cy
                     (js_sub (js_sub (right_m frame) (right_m m)) cx)
                     (js_sub (js_sub (bottom_m frame) (bottom_m m)) cy))
            (filter (\<lambda>c. \<not> recognized c) cs)"
    by (simp add: p2 undocked_placement_def Let_def comp_def)
  moreover have "map rect_of (drop (length (filter recognized cs)) (positioned (layout sid w h cs))) =
        map (\<lambda>c. let m = parseMargin (attr_margin c);
                    cx = js_add (left_m frame) (left_m m);
                    cy = js_add (top_m frame) (top_m m)
                in \<lparr>rect_x = cx, rect_y = cy,
                    rect_width = js_sub (js_sub (right_m frame) (right_m m)) cx,
                    rect_height = js_sub (js_sub (bottom_m frame) (bottom_m m)) cy\<rparr>)
            (filter (\<lambda>c. \<not> recognized c) cs)"
    by (simp add: p2 len rect_of_undocked_placement Let_def comp_def)
  ultimately show ?thesis
    using e1 scenario unfolding Let_def s1_def frame_def by blast
qed

text \<open>
  A margin of 5 around an undocked child, and a child with an unsupported dock, below a
  top dock 20 high.
\<close>

theorem undocked_children_final_frame_witness:
  "map rect_of (positioned (layout ''1'' (Fin 200) (Fin 100)
     [\<lparr>node = 0, attr_dock = None, attr_margin = Some ''5'',
       attr_width = None, attr_height = None\<rparr>,
      \<lparr>node = 1, attr_dock = Some ''top'', attr_margin = None,
       attr_width = None, attr_height = Some ''20''\<rparr>,
      \<lparr>node = 2, attr_dock = Some ''diagonal'', attr_margin = None,
       attr_width = None, attr_height = None\<rparr>])) =
     [\<lparr>rect_x = Fin 0, rect_y = Fin 0, rect_width = Fin 200, rect_height = Fin 20\<rparr>,
      \<lparr>rect_x = Fin 5, rect_y = Fin 25, rect_width = Fin 190, rect_height = Fin 70\<rparr>,
      \<lparr>rect_x = Fin 0, rect_y = Fin 20, rect_width = Fin 200, rect_height = Fin 80\<rparr>]"
proof -
  let ?cs = "[\<lparr>node = 0, attr_dock = None, attr_margin = Some ''5'',
       attr_width = None, attr_height = None\<rparr>,
      \<lparr>node = 1, attr_dock = Some ''top'', attr_margin = None,
       attr_width = None, attr_height = Some ''20''\<rparr>,
      \<lparr>node = 2, attr_dock = Some ''diagonal'', attr_margin = None,
       attr_width = None, attr_height = None\<rparr>]"
  define s1 where "s1 = foldl each_child (initial_state ''1'' (Fin 200) (Fin 100)) ?cs"
  have f: "undockedMargin s1 =
      \<lparr>top_m = Fin 20, right_m = Fin 200, bottom_m = Fin 100, left_m = Fin 0\<rparr>"
    unfolding s1_def by code_simp
  have p: "map rect_of (positioned s1) =
      [\<lparr>rect_x = Fin 0, rect_y = Fin 0, rect_width = Fin 200, rect_height = Fin 20\<rparr>]"
    unfolding s1_def by code_simp
  have m: "parseMargin (Some ''5'') =
      \<lparr>top_m = Fin 5, right_m = Fin 5, bottom_m = Fin 5, left_m = Fin 5\<rparr>"
    "parseMargin None = \<lparr>top_m = Fin 0, right_m = Fin 0, bottom_m = Fin 0, left_m = Fin 0\<rparr>"
    by code_simp+
  note t = undocked_children_final_frame[of "''1''" "Fin 200" "Fin 100" ?cs,
      unfolded Let_def, THEN conjunct2, THEN conjunct2, THEN conjunct1, folded s1_def]
  show ?thesis
    by (subst t) (simp add: f p m recognized_def rect_of_positionChild js_sub_def)
qed

section \<open>The frame only shrinks\<close>

text \<open>
  Claim C3. Along the first loop the frame evolves monotonically. Between the state after
  any children \<open>cs\<close> and the state after further children \<open>ds\<close>, top and left never
  decrease and right and bottom never increase: the later bound is never less (greater)
  than the earlier one under the comparison of the language, and it is NaN or at least (at
  most) the earlier one. The placements of docked children do not depend on the running
  frame at all: they are measured from \<open>x\<close>, \<open>y\<close>, \<open>width\<close> and \<open>height\<close>. So two
  children docked to the same side overlap: in a parent of 200 by 100, two children docked
  top with height 10 and no margin both get the rectangle (0, 0, 200, 10).
\<close>

theorem frame_monotone:
  "let F = undockedMargin (foldl each_child s cs);
       F' = undockedMargin (foldl each_child s (cs @ ds))
   in frame_shrinks F F' \<and>
      \<not> js_lt (top_m F') (top_m F) \<and> \<not> js_lt (left_m F') (left_m F) \<and>
      \<not> js_lt (right_m F) (right_m F') \<and> \<not> js_lt (bottom_m F) (bottom_m F') \<and>
      positioned (foldl each_child (s\<lparr>undockedMargin := G\<rparr>) cs) =
        positioned (foldl each_child s cs) \<and>
      map rect_of (positioned (layout sid (Fin 200) (Fin 100)
         [\<lparr>node = n1, attr_dock = Some ''top'', attr_margin = None,
           attr_width = None, attr_height = Some ''10''\<rparr>,
          \<lparr>node = n2, attr_dock = Some ''top'', attr_margin = None,
           attr_width = None, attr_height = Some ''10''\<rparr>])) =
        [\<lparr>rect_x = Fin 0, rect_y = Fin 0, rect_width = Fin 200, rect_height = Fin 10\<rparr>,
         \<lparr>rect_x = Fin 0, rect_y = Fin 0, rect_width = Fin 200, rect_height = Fin 10\<rparr>]"
proof -
  have sh: "frame_shrinks (undockedMargin (foldl each_child s cs))
      (undockedMargin (foldl each_child s (cs @ ds)))"
    using fold_shrinks[of "foldl each_child s cs" ds] by simp
  have scenario: "map rect_of (positioned (layout sid (Fin 200) (Fin 100)
         [\<lparr>node = n1, attr_dock = Some ''top'', attr_margin = None,
           attr_width = None, attr_height = Some ''10''\<rparr>,
          \<lparr>node = n2, attr_dock = Some ''top'', attr_margin = None,
           attr_width = None, attr_height = Some ''10''\<rparr>])) =
        [\<lparr>rect_x = Fin 0, rect_y = Fin 0, rect_width = Fin 200, rect_height = Fin 10\<rparr>,
         \<lparr>rect_x = Fin 0, rect_y = Fin 0, rect_width = Fin 200, rect_height = Fin 10\<rparr>]"
    by code_simp
  from sh have "\<not> js_lt (top_m (undockedMargin (foldl each_child s (cs @ ds))))
        (top_m (undockedMargin (foldl each_child s cs)))"
    and "\<not> js_lt (left_m (undockedMargin (foldl each_child s (cs @ ds))))
        (left_m (undockedMargin (foldl each_child s cs)))"
    and "\<not> js_lt (right_m (undockedMargin (foldl each_child s cs)))
        (right_m (undockedMargin (foldl each_child s (cs @ ds))))"
    and "\<not> js_lt (bottom_m (undockedMargin (foldl each_child s cs)))
        (bottom_m (undockedMargin (foldl each_child s (cs @ ds))))"
    by (simp_all add: frame_shrinks_def not_below_not_lt not_above_not_lt)
  with sh scenario fold_positioned_frame_free[where s = s and G = G and cs = cs] show ?thesis
    unfolding Let_def by blast
qed

text \<open>
  The frame after a top dock of 20, and after a further top dock of 10 and a right dock
  of 50: the top stays at 20, the right bound comes in to 150.
\<close>

theorem frame_monotone_witness:
  "undockedMargin (foldl each_child (initial_state ''1'' (Fin 200) (Fin 100))
      [\<lparr>node = 0, attr_dock = Some ''top'', attr_margin = None,
        attr_width = None, attr_height = Some ''20''\<rparr>]) =
     \<lparr>top_m = Fin 20, right_m = Fin 200, bottom_m = Fin 100, left_m = Fin 0\<rparr> \<and>
   undockedMargin (foldl each_child (initial_state ''1'' (Fin 200) (Fin 100))
      ([\<lparr>node = 0, attr_dock = Some ''top'', attr_margin = None,
         attr_width = None, attr_height = Some ''20''\<rparr>] @
       [\<lparr>node = 1, attr_dock = Some ''top'', attr_margin = None,
         attr_width = None, attr_height = Some ''10''\<rparr>,
        \<lparr>node = 2, attr_dock = Some ''right'', attr_margin = None,
         attr_width = Some ''50'', attr_height = None\<rparr>])) =
     \<lparr>top_m = Fin 20, right_m = Fin 150, bottom_m = Fin 100, left_m = Fin 0\<rparr> \<and>
   frame_shrinks
     \<lparr>top_m = Fin 20, right_m = Fin 200, bottom_m = Fin 100, left_m = Fin 0\<rparr>
     \<lparr>top_m = Fin 20, right_m = Fin 150, bottom_m = Fin 100, left_m = Fin 0\<rparr>"
proof -
  let ?c1 = "\<lparr>node = 0, attr_dock = Some ''top'', attr_margin = None,
       attr_width = None, attr_height = Some ''20''\<rparr>"
  let ?c2 = "\<lparr>node = 1, attr_dock = Some ''top'', attr_margin = None,
       attr_width = None, attr_height = Some ''10''\<rparr>"
  let ?c3 = "\<lparr>node = 2, attr_dock = Some ''right'', attr_margin = None,
       attr_width = Some ''50'', attr_height = None\<rparr>"
  have a: "undockedMargin (foldl each_child (initial_state ''1'' (Fin 200) (Fin 100)) [?c1]) =
      \<lparr>top_m = Fin 20, right_m = Fin 200, bottom_m = Fin 100, left_m = Fin 0\<rparr>"
    by code_simp
  have b: "undockedMargin (foldl each_child (initial_state ''1'' (Fin 200) (Fin 100))
        ([?c1] @ [?c2, ?c3])) =
      \<lparr>top_m = Fin 20, right_m = Fin 150, bottom_m = Fin 100, left_m = Fin 0\<rparr>"
    by code_simp
  from a b show ?thesis
    using frame_monotone[of "initial_state ''1'' (Fin 200) (Fin 100)" "[?c1]" "[?c2, ?c3]",
        unfolded Let_def a b, THEN conjunct1]
    by (simp only: simp_thms)
qed

section \<open>parseMargin: arity and fail-soft parsing\<close>

text \<open>
  Claim C4. \<open>parseMargin\<close> follows the arity rules of the CSS margin shorthand. For
  \<open>undefined\<close> and for the empty string it returns the all-zero margin. Otherwise the text is
  split at its commas, and with every part read by \<open>Number\<close> as a number: one part goes to all
  four sides; of two parts the first goes to top and bottom, the second to left and right; of
  three parts the first goes to top, the second to left and right, the third to bottom; of
  four or more parts the first four go to top, right, bottom and left, and the result does
  not depend on the parts after the fourth.
\<close>

theorem parseMargin_arity:
  "parseMargin None = \<lparr>top_m = Fin 0, right_m = Fin 0, bottom_m = Fin 0, left_m = Fin 0\<rparr> \<and>
   parseMargin (Some []) = \<lparr>top_m = Fin 0, right_m = Fin 0, bottom_m = Fin 0, left_m = Fin 0\<rparr> \<and>
   (str \<noteq> [] \<and> split str CHR '','' = [a] \<and> \<not> isNaN (Number a) \<longrightarrow>
      parseMargin (Some str) =
        \<lparr>top_m = Number a, right_m = Number a, bottom_m = Number a, left_m = Number a\<rparr>) \<and>
   (str \<noteq> [] \<and> split str CHR '','' = [a, b] \<and> \<not> isNaN (Number a) \<and> \<not> isNaN (Number b) \<longrightarrow>
      parseMargin (Some str) =
        \<lparr>top_m = Number a, right_m = Number b, bottom_m = Number a, left_m = Number b\<rparr>) \<and>
   (str \<noteq> [] \<and> split str CHR '','' = [a, b, c] \<and>
      \<not> isNaN (Number a) \<and> \<not> isNaN (Number b) \<and> \<not> isNaN (Number c) \<longrightarrow>
      parseMargin (Some str) =
        \<lparr>top_m = Number a, right_m = Number b, bottom_m = Number c, left_m = Number b\<rparr>) \<and>
   (str \<noteq> [] \<and> split str CHR '','' = a # b # c # d # rest \<and>
      \<not> isNaN (Number a) \<and> \<not> isNaN (Number b) \<and> \<not> isNaN (Number c) \<and> \<not> isNaN (Number d) \<longrightarrow>
      parseMargin (Some str) =
        \<lparr>top_m = Number a, right_m = Number b, bottom_m = Number c, left_m = Number d\<rparr>)"
  by (simp add: parseMargin_parts margin_switch_closed or_zero_def) (simp add: parseMargin_def)

text \<open>The arity rules at the margins \<open>5\<close>, \<open>1,2\<close>, \<open>1,2,3\<close> and \<open>1,2,3,4,5\<close>.\<close>

theorem parseMargin_arity_witness:
  "parseMargin (Some ''5'') = \<lparr>top_m = Fin 5, right_m = Fin 5, bottom_m = Fin 5, left_m = Fin 5\<rparr> \<and>
   parseMargin (Some ''1,2'') = \<lparr>top_m = Fin 1, right_m = Fin 2, bottom_m = Fin 1, left_m = Fin 2\<rparr> \<and>
   parseMargin (Some ''1,2,3'') = \<lparr>top_m = Fin 1, right_m = Fin 2, bottom_m = Fin 3, left_m = Fin 2\<rparr> \<and>
   parseMargin (Some ''1,2,3,4,5'') =
     \<lparr>top_m = Fin 1, right_m = Fin 2, bottom_m = Fin 3, left_m = Fin 4\<rparr>"
proof -
  have n: "Number ''1'' = Fin 1" "Number ''2'' = Fin 2" "Number ''3'' = Fin 3"
    "Number ''4'' = Fin 4" "Number ''5'' = Fin 5"
    by code_simp+
  have s1: "split ''5'' CHR '','' = [''5'']" by code_simp
  have s2: "split ''1,2'' CHR '','' = [''1'', ''2'']" by code_simp
  have s3: "split ''1,2,3'' CHR '','' = [''1'', ''2'', ''3'']" by code_simp
  have s5: "split ''1,2,3,4,5'' CHR '','' = ''1'' # ''2'' # ''3'' # ''4'' # [''5'']" by code_simp
  have "parseMargin (Some ''5'') =
      \<lparr>top_m = Fin 5, right_m = Fin 5, bottom_m = Fin 5, left_m = Fin 5\<rparr>"
    using parseMargin_arity[where str = "''5''" and a = "''5''"] s1 n by (simp add: isNaN_def)
  moreover have "parseMargin (Some ''1,2'') =
      \<lparr>top_m = Fin 1, right_m = Fin 2, bottom_m = Fin 1, left_m = Fin 2\<rparr>"
    using parseMargin_arity[where str = "''1,2''" and a = "''1''" and b = "''2''"] s2 n
    by (simp add: isNaN_def)
  moreover have "parseMargin (Some ''1,2,3'') =
      \<lparr>top_m = Fin 1, right_m = Fin 2, bottom_m = Fin 3, left_m = Fin 2\<rparr>"
    using parseMargin_arity[where str = "''1,2,3''" and a = "''1''" and b = "''2''" and c = "''3''"]
      s3 n
    by (simp add: isNaN_def)
  moreover have "parseMargin (Some ''1,2,3,4,5'') =
      \<lparr>top_m = Fin 1, right_m = Fin 2, bottom_m = Fin 3, left_m = Fin 4\<rparr>"
    using parseMargin_arity[where str = "''1,2,3,4,5''" and a = "''1''" and b = "''2''"
        and c = "''3''" and d = "''4''" and rest = "[''5'']"] s5 n
    by (simp add: isNaN_def)
  ultimately show ?thesis by simp
qed

text \<open>
  Claim C5. \<open>parseMargin\<close> is fail-soft field by field. Whatever the text, no field of the
  margin it returns is NaN; it is a total function, so no input makes it raise. For every
  arity, each field holds the number of the part that the arity rule assigns to it, or 0 when
  \<open>Number\<close> of that part is NaN; the other parts of the same string do not matter to it.
  In particular the margin \<open>x,2\<close> is parsed as top 0, right 2, bottom 0, left 2.
\<close>

theorem parseMargin_fail_soft:
  "\<not> isNaN (top_m (parseMargin attr)) \<and> \<not> isNaN (right_m (parseMargin attr)) \<and>
   \<not> isNaN (bottom_m (parseMargin attr)) \<and> \<not> isNaN (left_m (parseMargin attr)) \<and>
   (isNaN v \<longrightarrow> or_zero v = Fin 0) \<and> (\<not> isNaN v \<longrightarrow> or_zero v = v) \<and>
   (str \<noteq> [] \<and> split str CHR '','' = [a] \<longrightarrow>
      parseMargin (Some str) =
        \<lparr>top_m = or_zero (Number a), right_m = or_zero (Number a),
         bottom_m = or_zero (Number a), left_m = or_zero (Number a)\<rparr>) \<and>
   (str \<noteq> [] \<and> split str CHR '','' = [a, b] \<longrightarrow>
      parseMargin (Some str) =
        \<lparr>top_m = or_zero (Number a), right_m = or_zero (Number b),
         bottom_m = or_zero (Number a), left_m = or_zero (Number b)\<rparr>) \<and>
   (str \<noteq> [] \<and> split str CHR '','' = [a, b, c] \<longrightarrow>
      parseMargin (Some str) =
        \<lparr>top_m = or_zero (Number a), right_m = or_zero (Number b),
         bottom_m = or_zero (Number c), left_m = or_zero (Number b)\<rparr>) \<and>
   (str \<noteq> [] \<and> split str CHR '','' = a # b # c # d # rest \<longrightarrow>
      parseMargin (Some str) =
        \<lparr>top_m = or_zero (Number a), right_m = or_zero (Number b),
         bottom_m = or_zero (Number c), left_m = or_zero (Number d)\<rparr>) \<and>
   parseMargin (Some ''x,2'') =
     \<lparr>top_m = Fin 0, right_m = Fin 2, bottom_m = Fin 0, left_m = Fin 2\<rparr>"
proof -
  have "parseMargin (Some ''x,2'') =
      \<lparr>top_m = Fin 0, right_m = Fin 2, bottom_m = Fin 0, left_m = Fin 2\<rparr>"
    by code_simp
  moreover have "(isNaN v \<longrightarrow> or_zero v = Fin 0) \<and> (\<not> isNaN v \<longrightarrow> or_zero v = v)"
    by (simp add: or_zero_def)
  ultimately show ?thesis
    using parseMargin_not_NaN[of attr]
    by (simp add: parseMargin_parts margin_switch_closed)
qed

text \<open>
  Parts that are not numbers, at every arity: \<open>x\<close>, \<open>x,2\<close>, \<open>1,abc,3\<close> and
  \<open>1,2,x,4,abc\<close>.
\<close>

theorem parseMargin_fail_soft_witness:
  "isNaN (Number ''x'') \<and> isNaN (Number ''abc'') \<and> \<not> isNaN (Number ''2'') \<and>
   parseMargin (Some ''x'') =
     \<lparr>top_m = Fin 0, right_m = Fin 0, bottom_m = Fin 0, left_m = Fin 0\<rparr> \<and>
   parseMargin (Some ''x,2'') =
     \<lparr>top_m = Fin 0, right_m = Fin 2, bottom_m = Fin 0, left_m = Fin 2\<rparr> \<and>
   parseMargin (Some ''1,abc,3'') =
     \<lparr>top_m = Fin 1, right_m = Fin 0, bottom_m = Fin 3, left_m = Fin 0\<rparr> \<and>
   parseMargin (Some ''1,2,x,4,abc'') =
     \<lparr>top_m = Fin 1, right_m = Fin 2, bottom_m = Fin 0, left_m = Fin 4\<rparr>"
proof -
  have n: "Number ''1'' = Fin 1" "Number ''2'' = Fin 2" "Number ''3'' = Fin 3"
    "Number ''4'' = Fin 4" "Number ''x'' = NaN" "Number ''abc'' = NaN"
    by code_simp+
  have s1: "split ''x'' CHR '','' = [''x'']" by code_simp
  have s2: "split ''x,2'' CHR '','' = [''x'', ''2'']" by code_simp
  have s3: "split ''1,abc,3'' CHR '','' = [''1'', ''abc'', ''3'']" by code_simp
  have s5: "split ''1,2,x,4,abc'' CHR '','' = ''1'' # ''2'' # ''x'' # ''4'' # [''abc'']"
    by code_simp
  note t = parseMargin_fail_soft[where attr = None and rest = "[''abc'']"]
  have "parseMargin (Some ''x'') =
     \<lparr>top_m = Fin 0, right_m = Fin 0, bottom_m = Fin 0, left_m = Fin 0\<rparr>"
    using t[where str = "''x''" and a = "''x''" and b = "[]" and c = "[]" and d = "[]"
        and v = "Number ''x''"] s1 n
    by (simp add: isNaN_def)
  moreover have "parseMargin (Some ''x,2'') =
     \<lparr>top_m = Fin 0, right_m = Fin 2, bottom_m = Fin 0, left_m = Fin 2\<rparr>"
    using t[where str = "''x,2''" and a = "''x''" and b = "''2''" and c = "[]" and d = "[]"
        and v = "Number ''2''"] s2 n
    by (simp add: isNaN_def or_zero_def)
  moreover have "parseMargin (Some ''1,abc,3'') =
     \<lparr>top_m = Fin 1, right_m = Fin 0, bottom_m = Fin 3, left_m = Fin 0\<rparr>"
    using t[where str = "''1,abc,3''" and a = "''1''" and b = "''abc''" and c = "''3''"
        and d = "[]" and v = "Number ''abc''"] s3 n
    by (simp add: isNaN_def or_zero_def)
  moreover have "parseMargin (Some ''1,2,x,4,abc'') =
     \<lparr>top_m = Fin 1, right_m = Fin 2, bottom_m = Fin 0, left_m = Fin 4\<rparr>"
    using t[where str = "''1,2,x,4,abc''" and a = "''1''" and b = "''2''" and c = "''x''"
        and d = "''4''" and v = "Number ''4''"] s5 n
    by (simp add: isNaN_def or_zero_def)
  ultimately show ?thesis using n by (simp add: isNaN_def)
qed

section \<open>Unsupported dock values\<close>

text \<open>
  Claim C6. A child whose dock attribute is a non-empty string other than \<open>top\<close>, \<open>right\<close>,
  \<open>bottom\<close> and \<open>left\<close> makes the callback log exactly one line, the message about the
  unsupported dock, and push the child with its margin on the undocked queue; the frame and
  the placements made so far stay as they are. The loop goes on with the children after it,
  and the handler still places every child. The child is placed by the second loop, from
  the final frame. The console of the whole run holds the one line for this child between
  the lines caused by the children before it and those caused by the children after it.
  Frame and rectangles are the same as for the child without its dock attribute: the
  warning changes no layout result.
\<close>

theorem unknown_dock_degrades:
  assumes "attr_dock c = Some d" and "d \<noteq> []"
    and "d \<notin> {''top'', ''right'', ''bottom'', ''left''}"
  shows "each_child s c =
       s\<lparr>undocked := undocked s @ [(c, parseMargin (attr_margin c))],
         console := console s @ [unsupported_dock d]\<rparr> \<and>
     foldl each_child s (pre @ c # post) =
       foldl each_child
         ((foldl each_child s pre)
            \<lparr>undocked := undocked (foldl each_child s pre) @ [(c, parseMargin (attr_margin c))],
             console := console (foldl each_child s pre) @ [unsupported_dock d]\<rparr>) post \<and>
     console (layout sid w h (pre @ c # post)) =
       console (layout sid w h pre) @ [unsupported_dock d] @
       concat (map warning_of (filter (\<lambda>c. \<not> recognized c) post)) \<and>
     length (positioned (layout sid w h (pre @ c # post))) = length (pre @ c # post) \<and>
     undocked_placement (undockedMargin (layout sid w h (pre @ c # post)))
         (c, parseMargin (attr_margin c))
       \<in> set (positioned (layout sid w h (pre @ c # post))) \<and>
     undockedMargin (layout sid w h (pre @ c # post)) =
       undockedMargin (layout sid w h (pre @ c\<lparr>attr_dock := None\<rparr> # post)) \<and>
     map rect_of (positioned (layout sid w h (pre @ c # post))) =
       map rect_of (positioned (layout sid w h (pre @ c\<lparr>attr_dock := None\<rparr> # post)))"
proof -
  note u = unrecognized_dock[OF assms]
  let ?c' = "c\<lparr>attr_dock := None\<rparr>"
  have u': "\<not> recognized ?c'" by (simp add: recognized_def)
  have step: "each_child s c =
       s\<lparr>undocked := undocked s @ [(c, parseMargin (attr_margin c))],
         console := console s @ [unsupported_dock d]\<rparr>" for s
    using u by (simp add: each_child_unrecognized)
  have cont: "foldl each_child s (pre @ c # post) =
       foldl each_child
         ((foldl each_child s pre)
            \<lparr>undocked := undocked (foldl each_child s pre) @ [(c, parseMargin (attr_margin c))],
             console := console (foldl each_child s pre) @ [unsupported_dock d]\<rparr>) post"
    by (simp add: step)
  have cons: "console (layout sid w h (pre @ c # post)) =
       console (layout sid w h pre) @ [unsupported_dock d] @
       concat (map warning_of (filter (\<lambda>c. \<not> recognized c) post))"
    using u by (simp add: layout_console)
  have len: "length (positioned (layout sid w h (pre @ c # post))) = length (pre @ c # post)"
  proof -
    have "length (map elem (positioned (layout sid w h (pre @ c # post)))) =
        length (filter recognized (pre @ c # post)) +
        length (filter (\<lambda>c. \<not> recognized c) (pre @ c # post))"
      by (simp only: layout_elems length_append)
    then show ?thesis by (simp only: length_map sum_length_filter_compl)
  qed
  have mem: "undocked_placement (undockedMargin (layout sid w h (pre @ c # post)))
         (c, parseMargin (attr_margin c))
       \<in> set (positioned (layout sid w h (pre @ c # post)))"
    using u(1) by (simp add: layout_undockedMargin layout_positioned)
  have filt: "filter recognized (pre @ ?c' # post) = filter recognized (pre @ c # post)"
    using u(1) u' by simp
  have frame: "undockedMargin (layout sid w h (pre @ c # post)) =
       undockedMargin (layout sid w h (pre @ ?c' # post))"
    by (simp only: layout_undockedMargin fold_frame_filter[of _ "pre @ c # post"]
        fold_frame_filter[of _ "pre @ ?c' # post"] filt)
  have rects: "map rect_of (positioned (layout sid w h (pre @ c # post))) =
       map rect_of (positioned (layout sid w h (pre @ ?c' # post)))"
    unfolding layout_rects filt using u(1) u'
    by (simp add: rect_of_undocked_placement)
  from step cont cons len mem frame rects show ?thesis by blast
qed

text \<open>
  A single child with dock \<open>diagonal\<close> and no size in a parent of 200 by 100: one warning,
  and the whole parent as its rectangle.
\<close>

theorem unknown_dock_degrades_witness:
  "console (layout ''1'' (Fin 200) (Fin 100)
      ([] @ \<lparr>node = 0, attr_dock = Some ''diagonal'', attr_margin = None,
              attr_width = None, attr_height = None\<rparr> # [])) =
     [''bnlDockedLayout render:1'', unsupported_dock ''diagonal''] \<and>
   map rect_of (positioned (layout ''1'' (Fin 200) (Fin 100)
      ([] @ \<lparr>node = 0, attr_dock = Some ''diagonal'', attr_margin = None,
              attr_width = None, attr_height = None\<rparr> # []))) =
     [\<lparr>rect_x = Fin 0, rect_y = Fin 0, rect_width = Fin 200, rect_height = Fin 100\<rparr>]"
proof -
  let ?c = "\<lparr>node = 0, attr_dock = Some ''diagonal'', attr_margin = None,
              attr_width = None, attr_height = None\<rparr>"
  have h: "attr_dock ?c = Some ''diagonal''" "''diagonal'' \<noteq> []"
    "''diagonal'' \<notin> {''top'', ''right'', ''bottom'', ''left''}"
    by simp_all
  have r: "map rect_of (positioned (layout ''1'' (Fin 200) (Fin 100)
      ([] @ ?c\<lparr>attr_dock := None\<rparr> # []))) =
     [\<lparr>rect_x = Fin 0, rect_y = Fin 0, rect_width = Fin 200, rect_height = Fin 100\<rparr>]"
    by code_simp
  have k: "console (layout ''1'' (Fin 200) (Fin 100) []) = [''bnlDockedLayout render:1'']"
    by (simp add: layout_def initial_state_def)
  note t = unknown_dock_degrades[OF h, of _ "[]" "[]" "''1''" "Fin 200" "Fin 100"]
  from t[THEN conjunct2, THEN conjunct2, THEN conjunct1]
    t[THEN conjunct2, THEN conjunct2, THEN conjunct2, THEN conjunct2, THEN conjunct2, THEN conjunct2]
  show ?thesis
    by (simp only: r k) simp
qed

section \<open>One placement per child\<close>

text \<open>
  Claim C7. Let every child of the layout have an isolate scope, and let the handler be
  able to read its width and its height: from the scope, or else from the client size of
  an owning svg element. Then, for every such parent size and every list of children, the
  handler ends without an exception, in the state of the two loops. It has then called
  \<open>positionChild\<close> exactly once for every child: as many calls as children, and the placed
  elements are the children, each as often as it occurs in the input. Read back child by
  child, in the order of the input, every child has its rectangle: the one computed in the
  first loop for a child with a recognized dock, the one computed from the final frame for
  any other child.
\<close>

theorem one_placement_per_child:
  assumes "\<forall>c \<in> set cs. scoped c"
    and "scope_or_client sw (map_option fst svg) = Inr w"
    and "scope_or_client sh (map_option snd svg) = Inr h"
  shows "render sid scoped sw sh svg cs = Inr (layout sid w h cs) \<and>
     length (positioned (layout sid w h cs)) = length cs \<and>
     mset (map elem (positioned (layout sid w h cs))) = mset cs \<and>
     map (\<lambda>c. (c, rect_for (positioned (layout sid w h cs)) c)) cs =
       map (\<lambda>c. (c, Some (if recognized c
                          then rect_of (docked_placement (initial_state sid w h) c)
                          else rect_of (undocked_placement (undockedMargin (layout sid w h cs))
                                 (c, parseMargin (attr_margin c)))))) cs"
proof -
  have e: "map elem (positioned (layout sid w h cs)) =
     filter recognized cs @ filter (\<lambda>c. \<not> recognized c) cs"
    by (rule layout_elems)
  have "length (map elem (positioned (layout sid w h cs))) =
      length (filter recognized cs) + length (filter (\<lambda>c. \<not> recognized c) cs)"
    by (simp only: e length_append)
  then have l: "length (positioned (layout sid w h cs)) = length cs"
    by (simp only: length_map sum_length_filter_compl)
  have m: "mset (map elem (positioned (layout sid w h cs))) = mset cs"
    by (simp only: e mset_append mset_filter multiset_partition[symmetric])
  have r: "map (\<lambda>c. (c, rect_for (positioned (layout sid w h cs)) c)) cs =
       map (\<lambda>c. (c, Some (if recognized c
                          then rect_of (docked_placement (initial_state sid w h) c)
                          else rect_of (undocked_placement (undockedMargin (layout sid w h cs))
                                 (c, parseMargin (attr_margin c)))))) cs"
    by (rule map_cong[OF refl]) (simp only: layout_rect_for)
  from render_scoped[OF assms] l m r show ?thesis by blast
qed

text \<open>
  Without these conditions the handler throws. Of four children, the second without an
  isolate scope: the handler is left in the call of \<open>positionChild\<close> for the second child,
  after the transform has been written, with one child positioned and three not. And
  with no size on the scope and no owning svg element, it is left before the first loop.
\<close>

theorem handler_abort_counterexample:
  "render ''1'' (\<lambda>c. node c \<noteq> 1) (Some (Fin 200)) (Some (Fin 100)) (Some (Fin 300, Fin 150))
      [\<lparr>node = 0, attr_dock = Some ''top'', attr_margin = None,
        attr_width = None, attr_height = Some ''20''\<rparr>,
       \<lparr>node = 1, attr_dock = Some ''left'', attr_margin = Some ''5'',
        attr_width = Some ''50'', attr_height = None\<rparr>,
       \<lparr>node = 2, attr_dock = None, attr_margin = None,
        attr_width = None, attr_height = None\<rparr>,
       \<lparr>node = 3, attr_dock = Some ''bottom'', attr_margin = None,
        attr_width = None, attr_height = Some ''20''\<rparr>] =
     Inl \<lparr>cause = UndefinedScope
            \<lparr>node = 1, attr_dock = Some ''left'', attr_margin = Some ''5'',
             attr_width = Some ''50'', attr_height = None\<rparr>
            (Some (Fin 5, Fin 5)),
          placed_before =
            [\<lparr>elem = \<lparr>node = 0, attr_dock = Some ''top'', attr_margin = None,
                      attr_width = None, attr_height = Some ''20''\<rparr>,
              transform = None, scope_width = Fin 200, scope_height = Fin 20\<rparr>],
          logged_before = [''bnlDockedLayout render:1'']\<rparr> \<and>
   render ''1'' (\<lambda>c. True) None None None
      [\<lparr>node = 0, attr_dock = Some ''top'', attr_margin = None,
        attr_width = None, attr_height = Some ''20''\<rparr>] =
     Inl \<lparr>cause = NullOwnerSVG, placed_before = [],
          logged_before = [''bnlDockedLayout render:1'']\<rparr>"
  by (intro conjI; code_simp)

text \<open>
  An undocked child before a top dock, the width from the scope and the height from the
  svg element: both children have their rectangle, in the order of the input.
\<close>

theorem one_placement_per_child_witness:
  "render ''1'' (\<lambda>c. True) (Some (Fin 200)) None (Some (Fin 300, Fin 100))
      [\<lparr>node = 0, attr_dock = None, attr_margin = None,
        attr_width = None, attr_height = None\<rparr>,
       \<lparr>node = 2, attr_dock = Some ''top'', attr_margin = None,
        attr_width = None, attr_height = Some ''20''\<rparr>] =
     Inr (layout ''1'' (Fin 200) (Fin 100)
      [\<lparr>node = 0, attr_dock = None, attr_margin = None,
        attr_width = None, attr_height = None\<rparr>,
       \<lparr>node = 2, attr_dock = Some ''top'', attr_margin = None,
        attr_width = None, attr_height = Some ''20''\<rparr>]) \<and>
   map (\<lambda>c. (c, rect_for (positioned (layout ''1'' (Fin 200) (Fin 100)
      [\<lparr>node = 0, attr_dock = None, attr_margin = None,
        attr_width = None, attr_height = None\<rparr>,
       \<lparr>node = 2, attr_dock = Some ''top'', attr_margin = None,
        attr_width = None, attr_height = Some ''20''\<rparr>])) c))
      [\<lparr>node = 0, attr_dock = None, attr_margin = None,
        attr_width = None, attr_height = None\<rparr>,
       \<lparr>node = 2, attr_dock = Some ''top'', attr_margin = None,
        attr_width = None, attr_height = Some ''20''\<rparr>] =
     [(\<lparr>node = 0, attr_dock = None, attr_margin = None,
        attr_width = None, attr_height = None\<rparr>,
       Some \<lparr>rect_x = Fin 0, rect_y = Fin 20, rect_width = Fin 200, rect_height = Fin 80\<rparr>),
      (\<lparr>node = 2, attr_dock = Some ''top'', attr_margin = None,
        attr_width = None, attr_height = Some ''20''\<rparr>,
       Some \<lparr>rect_x = Fin 0, rect_y = Fin 0, rect_width = Fin 200, rect_height = Fin 20\<rparr>)]"
proof -
  let ?c0 = "\<lparr>node = 0, attr_dock = None, attr_margin = None,
        attr_width = None, attr_height = None\<rparr>"
  let ?c1 = "\<lparr>node = 2, attr_dock = Some ''top'', attr_margin = None,
        attr_width = None, attr_height = Some ''20''\<rparr>"
  have a: "\<forall>c \<in> set [?c0, ?c1]. (\<lambda>c. True) c" by simp
  have w: "scope_or_client (Some (Fin 200)) (map_option fst (Some (Fin 300, Fin 100))) =
      Inr (Fin 200)"
    by (simp add: scope_or_client_def)
  have h: "scope_or_client None (map_option snd (Some (Fin 300, Fin 100))) = Inr (Fin 100)"
    by (simp add: scope_or_client_def)
  have f: "undockedMargin (layout ''1'' (Fin 200) (Fin 100) [?c0, ?c1]) =
      \<lparr>top_m = Fin 20, right_m = Fin 200, bottom_m = Fin 100, left_m = Fin 0\<rparr>"
    by code_simp
  have d: "rect_of (docked_placement (initial_state ''1'' (Fin 200) (Fin 100)) ?c1) =
      \<lparr>rect_x = Fin 0, rect_y = Fin 0, rect_width = Fin 200, rect_height = Fin 20\<rparr>"
    by code_simp
  have m: "parseMargin None =
      \<lparr>top_m = Fin 0, right_m = Fin 0, bottom_m = Fin 0, left_m = Fin 0\<rparr>"
    by code_simp
  note t = one_placement_per_child[OF a w h, of "''1''"]
  from t[THEN conjunct1]
    t[THEN conjunct2, THEN conjunct2, THEN conjunct2, unfolded f]
  show ?thesis
    by (simp add: recognized_def d m rect_of_undocked_placement js_sub_def)
qed

section \<open>Sizes fall back to the parent\<close>

text \<open>
  Claim C8. For a child without a width (height) attribute the width (height) resolved
  before the switch is the width (height) the handler started with, whatever children the
  loop has processed before: the locals of the callback are those computed in the initial
  state, and they do not depend on the undocked frame.
\<close>

theorem size_falls_back_to_parent:
  "(attr_width c = None \<longrightarrow>
      childWidth (child_locals (foldl each_child (initial_state sid w h) pre) c) = w) \<and>
   (attr_height c = None \<longrightarrow>
      childHeight (child_locals (foldl each_child (initial_state sid w h) pre) c) = h) \<and>
   child_locals (foldl each_child (initial_state sid w h) pre) c =
     child_locals (initial_state sid w h) c \<and>
   child_locals (s\<lparr>undockedMargin := F\<rparr>) c = child_locals s c"
proof -
  have "same_vars (foldl each_child (initial_state sid w h) pre) (initial_state sid w h)"
    by (rule fold_vars)
  then have "child_locals (foldl each_child (initial_state sid w h) pre) c =
      child_locals (initial_state sid w h) c"
    by (rule child_locals_cong)
  moreover have "child_locals (s\<lparr>undockedMargin := F\<rparr>) c = child_locals s c"
    by (rule child_locals_cong) (simp add: same_vars_def)
  ultimately show ?thesis
    by (simp add: child_locals_def Let_def fold_vars_initial)
qed

text \<open>
  After a left dock of 50 and a top dock of 20 the frame has shrunk, and a child without
  size attributes still resolves to 200 by 100.
\<close>

theorem size_falls_back_to_parent_witness:
  "undockedMargin (foldl each_child (initial_state ''1'' (Fin 200) (Fin 100))
      [\<lparr>node = 0, attr_dock = Some ''left'', attr_margin = None,
        attr_width = Some ''50'', attr_height = None\<rparr>,
       \<lparr>node = 1, attr_dock = Some ''top'', attr_margin = None,
        attr_width = None, attr_height = Some ''20''\<rparr>]) =
     \<lparr>top_m = Fin 20, right_m = Fin 200, bottom_m = Fin 100, left_m = Fin 50\<rparr> \<and>
   childWidth (child_locals (foldl each_child (initial_state ''1'' (Fin 200) (Fin 100))
      [\<lparr>node = 0, attr_dock = Some ''left'', attr_margin = None,
        attr_width = Some ''50'', attr_height = None\<rparr>,
       \<lparr>node = 1, attr_dock = Some ''top'', attr_margin = None,
        attr_width = None, attr_height = Some ''20''\<rparr>])
      \<lparr>node = 2, attr_dock = Some ''bottom'', attr_margin = None,
       attr_width = None, attr_height = None\<rparr>) = Fin 200 \<and>
   childHeight (child_locals (foldl each_child (initial_state ''1'' (Fin 200) (Fin 100))
      [\<lparr>node = 0, attr_dock = Some ''left'', attr_margin = None,
        attr_width = Some ''50'', attr_height = None\<rparr>,
       \<lparr>node = 1, attr_dock = Some ''top'', attr_margin = None,
        attr_width = None, attr_height = Some ''20''\<rparr>])
      \<lparr>node = 2, attr_dock = Some ''bottom'', attr_margin = None,
       attr_width = None, attr_height = None\<rparr>) = Fin 100"
proof -
  let ?pre = "[\<lparr>node = 0, attr_dock = Some ''left'', attr_margin = None,
        attr_width = Some ''50'', attr_height = None\<rparr>,
       \<lparr>node = 1, attr_dock = Some ''top'', attr_margin = None,
        attr_width = None, attr_height = Some ''20''\<rparr>]"
  let ?c = "\<lparr>node = 2, attr_dock = Some ''bottom'', attr_margin = None,
       attr_width = None, attr_height = None\<rparr>"
  have f: "undockedMargin (foldl each_child (initial_state ''1'' (Fin 200) (Fin 100)) ?pre) =
     \<lparr>top_m = Fin 20, right_m = Fin 200, bottom_m = Fin 100, left_m = Fin 50\<rparr>"
    by code_simp
  have a: "attr_width ?c = None" "attr_height ?c = None" by simp_all
  note t = size_falls_back_to_parent[of ?c "''1''" "Fin 200" "Fin 100" ?pre]
  from f t[THEN conjunct1, rule_format, OF a(1)]
    t[THEN conjunct2, THEN conjunct1, rule_format, OF a(2)]
  show ?thesis by (simp only: simp_thms)
qed

section \<open>Sizes that are not numbers\<close>

text \<open>
  Claim C9. Unlike margins, the width and height attributes are not parsed fail-soft.
  \<open>Number\<close> of \<open>abc\<close> is NaN; as a margin it leaves every field at 0, but as the width of a
  child docked left it makes the dock width, the frame's left bound and the width of the
  child's rectangle NaN, and as the height of a child docked bottom it makes the dock
  height, the frame's bottom bound and the y and height of the rectangle NaN. An undocked
  child placed afterwards from that frame inherits the NaN.
\<close>

theorem size_attribute_NaN_propagates:
  "Number ''abc'' = NaN \<and>
   parseMargin (Some ''abc'') = \<lparr>top_m = Fin 0, right_m = Fin 0, bottom_m = Fin 0, left_m = Fin 0\<rparr> \<and>
   childDockWidth (child_locals (initial_state ''1'' (Fin 200) (Fin 100))
      \<lparr>node = 0, attr_dock = Some ''left'', attr_margin = None,
       attr_width = Some ''abc'', attr_height = None\<rparr>) = NaN \<and>
   undockedMargin (layout ''1'' (Fin 200) (Fin 100)
      [\<lparr>node = 0, attr_dock = Some ''left'', attr_margin = None,
        attr_width = Some ''abc'', attr_height = None\<rparr>]) =
     \<lparr>top_m = Fin 0, right_m = Fin 200, bottom_m = Fin 100, left_m = NaN\<rparr> \<and>
   map rect_of (positioned (layout ''1'' (Fin 200) (Fin 100)
      [\<lparr>node = 0, attr_dock = Some ''left'', attr_margin = None,
        attr_width = Some ''abc'', attr_height = None\<rparr>])) =
     [\<lparr>rect_x = Fin 0, rect_y = Fin 0, rect_width = NaN, rect_height = Fin 100\<rparr>] \<and>
   childDockHeight (child_locals (initial_state ''1'' (Fin 200) (Fin 100))
      \<lparr>node = 0, attr_dock = Some ''bottom'', attr_margin = None,
       attr_width = None, attr_height = Some ''abc''\<rparr>) = NaN \<and>
   undockedMargin (layout ''1'' (Fin 200) (Fin 100)
      [\<lparr>node = 0, attr_dock = Some ''bottom'', attr_margin = None,
        attr_width = None, attr_height = Some ''abc''\<rparr>]) =
     \<lparr>top_m = Fin 0, right_m = Fin 200, bottom_m = NaN, left_m = Fin 0\<rparr> \<and>
   map rect_of (positioned (layout ''1'' (Fin 200) (Fin 100)
      [\<lparr>node = 0, attr_dock = Some ''bottom'', attr_margin = None,
        attr_width = None, attr_height = Some ''abc''\<rparr>])) =
     [\<lparr>rect_x = Fin 0, rect_y = NaN, rect_width = Fin 200, rect_height = NaN\<rparr>] \<and>
   map rect_of (positioned (layout ''1'' (Fin 200) (Fin 100)
      [\<lparr>node = 0, attr_dock = Some ''left'', attr_margin = None,
        attr_width = Some ''abc'', attr_height = None\<rparr>,
       \<lparr>node = 1, attr_dock = None, attr_margin = None,
        attr_width = None, attr_height = None\<rparr>])) =
     [\<lparr>rect_x = Fin 0, rect_y = Fin 0, rect_width = NaN, rect_height = Fin 100\<rparr>,
      \<lparr>rect_x = NaN, rect_y = Fin 0, rect_width = NaN, rect_height = Fin 100\<rparr>]"
  by (intro conjI; code_simp)

section \<open>What a child changes\<close>

text \<open>
  Claim C10. Processing a child docked to a recognized side leaves the three other fields
  of the frame as they were; a child that is not recognized (no dock, or an unsupported
  one) leaves the whole frame as it was; no child changes \<open>x\<close>, \<open>y\<close>, \<open>width\<close> or
  \<open>height\<close>. So the final frame is the one the recognized children alone produce.
\<close>

theorem frame_effect:
  "let F = undockedMargin s; s' = each_child s c; F' = undockedMargin s'
   in (attr_dock c = Some ''top'' \<longrightarrow>
         right_m F' = right_m F \<and> bottom_m F' = bottom_m F \<and> left_m F' = left_m F) \<and>
      (attr_dock c = Some ''right'' \<longrightarrow>
         top_m F' = top_m F \<and> bottom_m F' = bottom_m F \<and> left_m F' = left_m F) \<and>
      (attr_dock c = Some ''bottom'' \<longrightarrow>
         top_m F' = top_m F \<and> right_m F' = right_m F \<and> left_m F' = left_m F) \<and>
      (attr_dock c = Some ''left'' \<longrightarrow>
         top_m F' = top_m F \<and> right_m F' = right_m F \<and> bottom_m F' = bottom_m F) \<and>
      (\<not> recognized c \<longrightarrow> F' = F) \<and>
      var_x s' = var_x s \<and> var_y s' = var_y s \<and>
      var_width s' = var_width s \<and> var_height s' = var_height s \<and>
      undockedMargin (foldl each_child s cs) =
        undockedMargin (foldl each_child s (filter recognized cs))"
proof -
  have v: "var_x (each_child s c) = var_x s \<and> var_y (each_child s c) = var_y s \<and>
      var_width (each_child s c) = var_width s \<and> var_height (each_child s c) = var_height s"
    using each_child_vars[of s c] by (simp add: same_vars_def)
  have u: "\<not> recognized c \<Longrightarrow> undockedMargin (each_child s c) = undockedMargin s"
    by (simp add: each_child_unrecognized)
  show ?thesis
    unfolding Let_def
    using v u fold_frame_filter[of s cs]
    by (auto simp: each_child_top each_child_right each_child_bottom each_child_left)
qed

text \<open>
  One child per side and one with an unsupported dock, each from the initial frame of a
  parent of 200 by 100; and a run in which only the left and the bottom dock count.
\<close>

theorem frame_effect_witness:
  "undockedMargin (each_child (initial_state ''1'' (Fin 200) (Fin 100))
      \<lparr>node = 0, attr_dock = Some ''top'', attr_margin = None,
       attr_width = Some ''50'', attr_height = Some ''20''\<rparr>) =
     \<lparr>top_m = Fin 20, right_m = Fin 200, bottom_m = Fin 100, left_m = Fin 0\<rparr> \<and>
   undockedMargin (each_child (initial_state ''1'' (Fin 200) (Fin 100))
      \<lparr>node = 0, attr_dock = Some ''right'', attr_margin = None,
       attr_width = Some ''50'', attr_height = Some ''20''\<rparr>) =
     \<lparr>top_m = Fin 0, right_m = Fin 150, bottom_m = Fin 100, left_m = Fin 0\<rparr> \<and>
   undockedMargin (each_child (initial_state ''1'' (Fin 200) (Fin 100))
      \<lparr>node = 0, attr_dock = Some ''bottom'', attr_margin = None,
       attr_width = Some ''50'', attr_height = Some ''20''\<rparr>) =
     \<lparr>top_m = Fin 0, right_m = Fin 200, bottom_m = Fin 80, left_m = Fin 0\<rparr> \<and>
   undockedMargin (each_child (initial_state ''1'' (Fin 200) (Fin 100))
      \<lparr>node = 0, attr_dock = Some ''left'', attr_margin = None,
       attr_width = Some ''50'', attr_height = Some ''20''\<rparr>) =
     \<lparr>top_m = Fin 0, right_m = Fin 200, bottom_m = Fin 100, left_m = Fin 50\<rparr> \<and>
   undockedMargin (each_child (initial_state ''1'' (Fin 200) (Fin 100))
      \<lparr>node = 0, attr_dock = Some ''middle'', attr_margin = None,
       attr_width = Some ''50'', attr_height = Some ''20''\<rparr>) =
     \<lparr>top_m = Fin 0, right_m = Fin 200, bottom_m = Fin 100, left_m = Fin 0\<rparr> \<and>
   undockedMargin (foldl each_child (initial_state ''1'' (Fin 200) (Fin 100))
      [\<lparr>node = 0, attr_dock = Some ''left'', attr_margin = None,
        attr_width = Some ''50'', attr_height = None\<rparr>,
       \<lparr>node = 1, attr_dock = None, attr_margin = Some ''7'',
        attr_width = Some ''30'', attr_height = Some ''30''\<rparr>,
       \<lparr>node = 2, attr_dock = Some ''middle'', attr_margin = None,
        attr_width = Some ''10'', attr_height = None\<rparr>,
       \<lparr>node = 3, attr_dock = Some ''bottom'', attr_margin = None,
        attr_width = None, attr_height = Some ''20''\<rparr>]) =
     \<lparr>top_m = Fin 0, right_m = Fin 200, bottom_m = Fin 80, left_m = Fin 50\<rparr>"
proof -
  let ?s = "initial_state ''1'' (Fin 200) (Fin 100)"
  let ?cs = "[\<lparr>node = 0, attr_dock = Some ''left'', attr_margin = None,
        attr_width = Some ''50'', attr_height = None\<rparr>,
       \<lparr>node = 1, attr_dock = None, attr_margin = Some ''7'',
        attr_width = Some ''30'', attr_height = Some ''30''\<rparr>,
       \<lparr>node = 2, attr_dock = Some ''middle'', attr_margin = None,
        attr_width = Some ''10'', attr_height = None\<rparr>,
       \<lparr>node = 3, attr_dock = Some ''bottom'', attr_margin = None,
        attr_width = None, attr_height = Some ''20''\<rparr>]"
  have r: "filter recognized ?cs =
      [\<lparr>node = 0, attr_dock = Some ''left'', attr_margin = None,
        attr_width = Some ''50'', attr_height = None\<rparr>,
       \<lparr>node = 3, attr_dock = Some ''bottom'', attr_margin = None,
        attr_width = None, attr_height = Some ''20''\<rparr>]"
    by (simp add: recognized_def)
  have f: "undockedMargin (foldl each_child ?s
      [\<lparr>node = 0, attr_dock = Some ''left'', attr_margin = None,
        attr_width = Some ''50'', attr_height = None\<rparr>,
       \<lparr>node = 3, attr_dock = Some ''bottom'', attr_margin = None,
        attr_width = None, attr_height = Some ''20''\<rparr>]) =
     \<lparr>top_m = Fin 0, right_m = Fin 200, bottom_m = Fin 80, left_m = Fin 50\<rparr>"
    by code_simp
  have fields: "top_m (undockedMargin (each_child ?s
        \<lparr>node = 0, attr_dock = Some ''top'', attr_margin = None,
         attr_width = Some ''50'', attr_height = Some ''20''\<rparr>)) = Fin 20"
    "right_m (undockedMargin (each_child ?s
        \<lparr>node = 0, attr_dock = Some ''right'', attr_margin = None,
         attr_width = Some ''50'', attr_height = Some ''20''\<rparr>)) = Fin 150"
    "bottom_m (undockedMargin (each_child ?s
        \<lparr>node = 0, attr_dock = Some ''bottom'', attr_margin = None,
         attr_width = Some ''50'', attr_height = Some ''20''\<rparr>)) = Fin 80"
    "left_m (undockedMargin (each_child ?s
        \<lparr>node = 0, attr_dock = Some ''left'', attr_margin = None,
         attr_width = Some ''50'', attr_height = Some ''20''\<rparr>)) = Fin 50"
    by code_simp+
  have s0: "undockedMargin ?s =
      \<lparr>top_m = Fin 0, right_m = Fin 200, bottom_m = Fin 100, left_m = Fin 0\<rparr>"
    by (simp add: initial_state_def)
  have eqI: "top_m F = a \<Longrightarrow> right_m F = b \<Longrightarrow> bottom_m F = c \<Longrightarrow> left_m F = d \<Longrightarrow>
      F = \<lparr>top_m = a, right_m = b, bottom_m = c, left_m = d\<rparr>" for F a b c d
    by (cases F) simp
  note t = frame_effect[where s = ?s, unfolded Let_def s0]
  have "undockedMargin (each_child ?s
      \<lparr>node = 0, attr_dock = Some ''top'', attr_margin = None,
       attr_width = Some ''50'', attr_height = Some ''20''\<rparr>) =
     \<lparr>top_m = Fin 20, right_m = Fin 200, bottom_m = Fin 100, left_m = Fin 0\<rparr>"
    using t[where c = "\<lparr>node = 0, attr_dock = Some ''top'', attr_margin = None,
       attr_width = Some ''50'', attr_height = Some ''20''\<rparr>"] fields(1)
    by (intro eqI) simp_all
  moreover have "undockedMargin (each_child ?s
      \<lparr>node = 0, attr_dock = Some ''right'', attr_margin = None,
       attr_width = Some ''50'', attr_height = Some ''20''\<rparr>) =
     \<lparr>top_m = Fin 0, right_m = Fin 150, bottom_m = Fin 100, left_m = Fin 0\<rparr>"
    using t[where c = "\<lparr>node = 0, attr_dock = Some ''right'', attr_margin = None,
       attr_width = Some ''50'', attr_height = Some ''20''\<rparr>"] fields(2)
    by (intro eqI) simp_all
  moreover have "undockedMargin (each_child ?s
      \<lparr>node = 0, attr_dock = Some ''bottom'', attr_margin = None,
       attr_width = Some ''50'', attr_height = Some ''20''\<rparr>) =
     \<lparr>top_m = Fin 0, right_m = Fin 200, bottom_m = Fin 80, left_m = Fin 0\<rparr>"
    using t[where c = "\<lparr>node = 0, attr_dock = Some ''bottom'', attr_margin = None,
       attr_width = Some ''50'', attr_height = Some ''20''\<rparr>"] fields(3)
    by (intro eqI) simp_all
  moreover have "undockedMargin (each_child ?s
      \<lparr>node = 0, attr_dock = Some ''left'', attr_margin = None,
       attr_width = Some ''50'', attr_height = Some ''20''\<rparr>) =
     \<lparr>top_m = Fin 0, right_m = Fin 200, bottom_m = Fin 100, left_m = Fin 50\<rparr>"
    using t[where c = "\<lparr>node = 0, attr_dock = Some ''left'', attr_margin = None,
       attr_width = Some ''50'', attr_height = Some ''20''\<rparr>"] fields(4)
    by (intro eqI) simp_all
  moreover have "undockedMargin (each_child ?s
      \<lparr>node = 0, attr_dock = Some ''middle'', attr_margin = None,
       attr_width = Some ''50'', attr_height = Some ''20''\<rparr>) =
     \<lparr>top_m = Fin 0, right_m = Fin 200, bottom_m = Fin 100, left_m = Fin 0\<rparr>"
    using t[where c = "\<lparr>node = 0, attr_dock = Some ''middle'', attr_margin = None,
       attr_width = Some ''50'', attr_height = Some ''20''\<rparr>"]
    by (simp add: recognized_def)
  moreover have "undockedMargin (foldl each_child ?s ?cs) =
     \<lparr>top_m = Fin 0, right_m = Fin 200, bottom_m = Fin 80, left_m = Fin 50\<rparr>"
  proof -
    have "undockedMargin (foldl each_child ?s ?cs) =
        undockedMargin (foldl each_child ?s (filter recognized ?cs))"
      using t[where cs = ?cs] by blast
    then show ?thesis by (simp only: r f)
  qed
  ultimately show ?thesis by (simp only: simp_thms)
qed

end
